theory Spec2Isabelle
  imports Complex_Main "HOL-Library.Sublist"
begin

text \<open>
  A shallow embedding of the core of \<^verbatim>\<open>community-intel-cache\<close>: the staleness check, the
  interval and backoff policy (\<^verbatim>\<open>cache.ts\<close>), the extraction, deduplication and review of
  findings (\<^verbatim>\<open>extract.ts\<close>), the cache writer (\<^verbatim>\<open>write.ts\<close>) and the \<^verbatim>\<open>refresh\<close> and
  \<^verbatim>\<open>review\<close> commands (\<^verbatim>\<open>cli.ts\<close>). The cache directory is a record of its four files,
  passed in and returned; the subprocesses, the clock, \<^verbatim>\<open>Date\<close> and \<^verbatim>\<open>sha256\<close> are
  arguments. The properties C1 to C10 of the specification are then settled on these
  definitions.
\<close>

section \<open>Data model (types.ts)\<close>

text \<open>
  The records follow the interfaces of \<^verbatim>\<open>types.ts\<close>. A field keeps the name it has in
  the source unless two interfaces share it; then the later record carries a prefix
  (\<open>r_\<close>, \<open>x_\<close>, \<open>w_\<close> for the items of the three sources, \<open>report_\<close> for the report,
  \<open>entry_\<close> for a ledger entry, \<open>_cfg\<close> for the configuration). An optional field
  (\<^verbatim>\<open>field?: T\<close>) and a nullable one (\<^verbatim>\<open>T | null\<close>) are \<open>option\<close>s.

  Numbers are integers: scores, thresholds, day counts and times in milliseconds since
  the epoch. JavaScript computes exactly on integers of magnitude below \<open>2^53\<close>; the
  model does not go beyond that exactness, and the only non-number it keeps is \<open>NaN\<close>,
  the time value of an invalid \<^verbatim>\<open>Date\<close>, as \<open>None\<close>.
\<close>

record CacheConfig =
  topics :: "string list"
  refreshIntervalDays :: "int option"
  thinCacheIntervalDays :: "int option"
  context_cfg :: "string option"
  days_cfg :: "int option"
  minScore_cfg :: "int option"
  minSummaryLength_cfg :: "int option"

record CacheMetadata =
  last_updated :: string
  topics_researched :: "string list"
  next_update_after :: string

record reddit_item =
  r_title :: string
  r_url :: string
  subreddit :: string
  r_date :: "string option"
  r_why_relevant :: string
  r_score :: int
  comment_insights :: "string list"

record x_item =
  x_text :: string
  x_url :: string
  author_handle :: string
  x_date :: "string option"
  x_why_relevant :: string
  x_score :: int

record web_item =
  w_title :: string
  w_url :: string
  source_domain :: string
  snippet :: string
  w_why_relevant :: string
  w_score :: int

record Last30DaysReport =
  report_topic :: string
  reddit :: "reddit_item list"
  x_items :: "x_item list"
  web :: "web_item list"

datatype RefreshStatus = Fresh | No_cache | Refreshed | Failed

datatype finding_type = Reddit | X | Web

record Finding =
  hash :: string
  type :: finding_type
  topic :: string
  title :: string
  summary :: string
  url :: string
  score :: int
  date :: "string option"

record ReviewedEntry =
  entry_hash :: string
  entry_decision :: string
  entry_date :: string

record ReviewedHashes =
  version :: int
  reviewed :: "ReviewedEntry list"

datatype extract_status = Has_new | No_new | No_staged

record ExtractResult =
  status :: extract_status
  findings :: "Finding list"

record QualityFilterOptions =
  minScore :: "int option"
  minSummaryLength :: "int option"

datatype cli_command = Refresh_cmd | Reset_cmd | Extract_cmd | Review_cmd

record CliOptions =
  command :: cli_command
  configPath :: string
  cacheDir :: string
  noSynthesize :: bool
  force :: bool
  verbose :: bool
  days :: "int option"
  hashes :: "string list"
  decision :: string

text \<open>\<^verbatim>\<open>CONFIG_DEFAULTS\<close> and the other constants of \<^verbatim>\<open>types.ts\<close>.\<close>

definition CONFIG_DEFAULTS_refreshIntervalDays :: int where
  "CONFIG_DEFAULTS_refreshIntervalDays = 30"

definition CONFIG_DEFAULTS_thinCacheIntervalDays :: int where
  "CONFIG_DEFAULTS_thinCacheIntervalDays = 7"

definition CONFIG_DEFAULTS_minScore :: int where
  "CONFIG_DEFAULTS_minScore = 25"

definition CONFIG_DEFAULTS_minSummaryLength :: int where
  "CONFIG_DEFAULTS_minSummaryLength = 40"

definition MAX_CACHE_AGE_DAYS :: int where
  "MAX_CACHE_AGE_DAYS = 60"

definition BACKOFF_HOURS :: int where
  "BACKOFF_HOURS = 4"

section \<open>The cache directory and the collaborators at its boundary\<close>

text \<open>
  A cache directory holds at most four artifacts. A JSON artifact is kept as the result
  of parsing it: \<open>Unparsable\<close> for text that is not JSON, \<open>Json v\<close> for the value it
  holds. The metadata file is read at type \<^verbatim>\<open>CacheMetadata | null\<close>, so its value is an
  option: \<open>Json None\<close> is the text \<^verbatim>\<open>null\<close>. \<open>None\<close> at the outer level is an absent
  file (\<^verbatim>\<open>pathExistsSync\<close> is false).
\<close>

datatype 'a json_file = Unparsable | Json 'a

record cache_dir =
  staged_intel_md :: "string option"
  staged_raw_json :: "Last30DaysReport list json_file option"
  last_updated_json :: "CacheMetadata option json_file option"
  reviewed_hashes_json :: "ReviewedHashes json_file option"

text \<open>
  Modelled from the spec: \<^verbatim>\<open>readJsonFileOrDefault\<close> belongs to the package
  \<^verbatim>\<open>@side-quest/core/fs\<close>, which is not part of the sources. Sections 4.4 and 7 of the
  specification describe it: the parsed value, and the default when the file is absent
  or unreadable; it never throws.
\<close>

definition readJsonFileOrDefault :: "'a json_file option \<Rightarrow> 'a \<Rightarrow> 'a" where
  "readJsonFileOrDefault file dflt = (case file of Some (Json v) \<Rightarrow> v | _ \<Rightarrow> dflt)"

text \<open>
  The JavaScript built-ins around \<^verbatim>\<open>Date\<close> are parameters of the functions that call
  them: \<open>parse s\<close> is \<^verbatim>\<open>new Date(s).getTime()\<close>, a time value or \<open>None\<close> for \<open>NaN\<close>
  (\<^verbatim>\<open>new Date\<close> does not throw on a string it cannot read: it yields an invalid date);
  \<open>toISOString t\<close> is \<^verbatim>\<open>new Date(t).toISOString()\<close>. Each reading of the clock
  (\<^verbatim>\<open>Date.now()\<close>, \<^verbatim>\<open>new Date()\<close>) is an argument of its own, in the order the code
  reads. \<^verbatim>\<open>sha256\<close> of \<^verbatim>\<open>@side-quest/core/hash\<close> is a parameter as well.
\<close>

type_synonym jsnum = "int option"

definition js_sub :: "jsnum \<Rightarrow> jsnum \<Rightarrow> jsnum" where
  "js_sub a b = (case (a, b) of (Some m, Some n) \<Rightarrow> Some (m - n) | _ \<Rightarrow> None)"

definition js_gt :: "jsnum \<Rightarrow> jsnum \<Rightarrow> bool" where
  "js_gt a b = (case (a, b) of (Some m, Some n) \<Rightarrow> m > n | _ \<Rightarrow> False)"

definition js_add :: "jsnum \<Rightarrow> jsnum \<Rightarrow> jsnum" where
  "js_add a b = (case (a, b) of (Some m, Some n) \<Rightarrow> Some (m + n) | _ \<Rightarrow> None)"

text \<open>
  A \<^verbatim>\<open>Date\<close> object is its time value. \<^verbatim>\<open>new Date(v)\<close> on a number clips it: a time
  value is at most \<open>8640000000000000\<close> milliseconds away from the epoch, and a number
  beyond that (or \<open>NaN\<close>) gives the invalid date, whose time value is \<open>NaN\<close>. All
  integers up to that bound are below \<open>2^53\<close>.
\<close>

type_synonym Date = jsnum

definition new_Date :: "jsnum \<Rightarrow> Date" where
  "new_Date v =
     (case v of
        None \<Rightarrow> None
      | Some t \<Rightarrow> if \<bar>t\<bar> \<le> 8640000000000000 then Some t else None)"

section \<open>Finding extraction (extract.ts)\<close>

definition computeFindingHash :: "(string \<Rightarrow> string) \<Rightarrow> string \<Rightarrow> string" where
  "computeFindingHash sha256 u = sha256 u"

text \<open>
  The three inner loops of \<^verbatim>\<open>extractFindings\<close>; \<open>acc\<close> is the array \<^verbatim>\<open>findings\<close>,
  and a \<^verbatim>\<open>continue\<close> goes on with the array as it is.
\<close>

fun reddit_loop ::
  "(string \<Rightarrow> string) \<Rightarrow> int \<Rightarrow> int \<Rightarrow> string \<Rightarrow> reddit_item list \<Rightarrow> Finding list \<Rightarrow> Finding list"
where
  "reddit_loop sha256 minS minL tp [] acc = acc"
| "reddit_loop sha256 minS minL tp (item # items) acc =
     (if r_score item < minS then reddit_loop sha256 minS minL tp items acc
      else if int (length (r_why_relevant item)) < minL then reddit_loop sha256 minS minL tp items acc
      else reddit_loop sha256 minS minL tp items
             (acc @ [\<lparr>hash = computeFindingHash sha256 (r_url item), type = Reddit, topic = tp,
                       title = r_title item, summary = r_why_relevant item, url = r_url item,
                       score = r_score item, date = r_date item\<rparr>]))"

fun x_loop ::
  "(string \<Rightarrow> string) \<Rightarrow> int \<Rightarrow> int \<Rightarrow> string \<Rightarrow> x_item list \<Rightarrow> Finding list \<Rightarrow> Finding list"
where
  "x_loop sha256 minS minL tp [] acc = acc"
| "x_loop sha256 minS minL tp (item # items) acc =
     (if x_score item < minS then x_loop sha256 minS minL tp items acc
      else if int (length (x_why_relevant item)) < minL then x_loop sha256 minS minL tp items acc
      else
        (let preview = (if length (x_text item) > 120 then take 120 (x_text item) @ ''...''
                        else x_text item)
         in x_loop sha256 minS minL tp items
              (acc @ [\<lparr>hash = computeFindingHash sha256 (x_url item), type = X, topic = tp,
                        title = preview, summary = x_why_relevant item, url = x_url item,
                        score = x_score item, date = x_date item\<rparr>])))"

fun web_loop ::
  "(string \<Rightarrow> string) \<Rightarrow> int \<Rightarrow> int \<Rightarrow> string \<Rightarrow> web_item list \<Rightarrow> Finding list \<Rightarrow> Finding list"
where
  "web_loop sha256 minS minL tp [] acc = acc"
| "web_loop sha256 minS minL tp (item # items) acc =
     (if w_score item < minS then web_loop sha256 minS minL tp items acc
      else if int (length (w_why_relevant item)) < minL then web_loop sha256 minS minL tp items acc
      else web_loop sha256 minS minL tp items
             (acc @ [\<lparr>hash = computeFindingHash sha256 (w_url item), type = Web, topic = tp,
                       title = w_title item, summary = w_why_relevant item, url = w_url item,
                       score = w_score item, date = None\<rparr>]))"

text \<open>The outer loop over the reports: reddit, then x, then web, for each report.\<close>

fun report_loop ::
  "(string \<Rightarrow> string) \<Rightarrow> int \<Rightarrow> int \<Rightarrow> Last30DaysReport list \<Rightarrow> Finding list \<Rightarrow> Finding list"
where
  "report_loop sha256 minS minL [] acc = acc"
| "report_loop sha256 minS minL (report # reports) acc =
     report_loop sha256 minS minL reports
       (web_loop sha256 minS minL (report_topic report) (web report)
         (x_loop sha256 minS minL (report_topic report) (x_items report)
           (reddit_loop sha256 minS minL (report_topic report) (reddit report) acc)))"

text \<open>
  The final \<^verbatim>\<open>findings.filter\<close> with its set \<^verbatim>\<open>seen\<close>, which the callback extends as
  it goes through the array.
\<close>

fun dedup_filter :: "string set \<Rightarrow> Finding list \<Rightarrow> Finding list" where
  "dedup_filter seen [] = []"
| "dedup_filter seen (f # fs) =
     (if hash f \<in> seen then dedup_filter seen fs
      else f # dedup_filter (insert (hash f) seen) fs)"

text \<open>
  \<^verbatim>\<open>options?.minScore ?? CONFIG_DEFAULTS.minScore\<close>: the configured value when the
  options and the field are there (0 included), the default otherwise; the same for
  \<^verbatim>\<open>minSummaryLength\<close>.
\<close>

definition extractFindings ::
  "(string \<Rightarrow> string) \<Rightarrow> Last30DaysReport list \<Rightarrow> QualityFilterOptions option \<Rightarrow> Finding list"
where
  "extractFindings sha256 reports options =
     (let minS = (case options of
                    None \<Rightarrow> CONFIG_DEFAULTS_minScore
                  | Some opts \<Rightarrow>
                      (case minScore opts of None \<Rightarrow> CONFIG_DEFAULTS_minScore | Some v \<Rightarrow> v));
          minL = (case options of
                    None \<Rightarrow> CONFIG_DEFAULTS_minSummaryLength
                  | Some opts \<Rightarrow>
                      (case minSummaryLength opts of
                         None \<Rightarrow> CONFIG_DEFAULTS_minSummaryLength | Some v \<Rightarrow> v))
      in dedup_filter {} (report_loop sha256 minS minL reports []))"

text \<open>
  \<^verbatim>\<open>getUnreviewedFindings\<close> calls the file system through \<^verbatim>\<open>pathExistsSync\<close> and
  \<^verbatim>\<open>readJsonFileOrDefault\<close>. The model returns, with the result, the directory as the
  function leaves it.
\<close>

definition getUnreviewedFindings ::
  "(string \<Rightarrow> string) \<Rightarrow> cache_dir \<Rightarrow> QualityFilterOptions option
     \<Rightarrow> ExtractResult \<times> cache_dir"
where
  "getUnreviewedFindings sha256 dir options =
     (if staged_raw_json dir = None then (\<lparr>status = No_staged, findings = []\<rparr>, dir)
      else
        (let reports = readJsonFileOrDefault (staged_raw_json dir) [];
             allFindings = extractFindings sha256 reports options
         in if length allFindings = 0 then (\<lparr>status = No_new, findings = []\<rparr>, dir)
            else
              (let ledger = readJsonFileOrDefault (reviewed_hashes_json dir)
                              \<lparr>version = 1, reviewed = []\<rparr>;
                   reviewedSet = set (map entry_hash (reviewed ledger));
                   unreviewed = filter (\<lambda>f. hash f \<notin> reviewedSet) allFindings
               in if length unreviewed = 0 then (\<lparr>status = No_new, findings = []\<rparr>, dir)
                  else (\<lparr>status = Has_new, findings = unreviewed\<rparr>, dir))))"

section \<open>Staleness, interval and backoff (cache.ts)\<close>

text \<open>
  \<^verbatim>\<open>isCacheFresh\<close> reads the clock twice: \<open>now1\<close> for the age, \<open>now2\<close> for the
  deadline. The comparisons are JavaScript's: with \<open>NaN\<close> on either side they are
  false. Nothing inside the \<^verbatim>\<open>try\<close> block throws on a value of the declared type, so
  the \<^verbatim>\<open>catch\<close> branch has no counterpart here.
\<close>

definition isCacheFresh :: "(string \<Rightarrow> jsnum) \<Rightarrow> cache_dir \<Rightarrow> int \<Rightarrow> int \<Rightarrow> bool" where
  "isCacheFresh parse dir now1 now2 =
     (if last_updated_json dir = None then False
      else if staged_intel_md dir = None then False
      else
        (case readJsonFileOrDefault (last_updated_json dir) None of
           None \<Rightarrow> False
         | Some metadata \<Rightarrow>
             (let lastUpdated = parse (last_updated metadata);
                  ageMs = js_sub (Some now1) lastUpdated
              in if js_gt ageMs (Some (MAX_CACHE_AGE_DAYS * 24 * 60 * 60 * 1000)) then False
                 else
                   (let nextUpdate = parse (next_update_after metadata)
                    in js_gt nextUpdate (Some now2)))))"

text \<open>
  \<open>successCount\<close> and \<open>totalTopics\<close> are counts (the callers pass the length of a
  filtered array and of the topic list), hence naturals; \<^verbatim>\<open>totalTopics / 2\<close> is an exact
  half.
\<close>

definition getIntervalDays :: "nat \<Rightarrow> nat \<Rightarrow> CacheConfig \<Rightarrow> int" where
  "getIntervalDays successCount totalTopics config =
     (let refreshDays = (case refreshIntervalDays config of
                           None \<Rightarrow> CONFIG_DEFAULTS_refreshIntervalDays | Some d \<Rightarrow> d);
          thinDays = (case thinCacheIntervalDays config of
                        None \<Rightarrow> CONFIG_DEFAULTS_thinCacheIntervalDays | Some d \<Rightarrow> d)
      in if (of_nat successCount :: rat) < of_nat totalTopics / 2 then thinDays else refreshDays)"

text \<open>
  \<^verbatim>\<open>calculateNextUpdate\<close> receives a \<^verbatim>\<open>Date\<close> and returns
  \<^verbatim>\<open>new Date(now.getTime() + intervalDays * 24 * 60 * 60 * 1000)\<close>, which is the invalid
  date when the sum leaves the range of time values.
\<close>

definition calculateNextUpdate :: "nat \<Rightarrow> nat \<Rightarrow> CacheConfig \<Rightarrow> Date \<Rightarrow> Date" where
  "calculateNextUpdate successCount totalTopics config now =
     (let refreshDays = (case refreshIntervalDays config of
                           None \<Rightarrow> CONFIG_DEFAULTS_refreshIntervalDays | Some d \<Rightarrow> d);
          thinDays = (case thinCacheIntervalDays config of
                        None \<Rightarrow> CONFIG_DEFAULTS_thinCacheIntervalDays | Some d \<Rightarrow> d);
          intervalDays = (if (of_nat successCount :: rat) < of_nat totalTopics / 2
                          then thinDays else refreshDays)
      in new_Date (js_add now (Some (intervalDays * 24 * 60 * 60 * 1000))))"

text \<open>
  \<^verbatim>\<open>buildBackoffMetadata\<close>: \<open>new_date\<close> is the \<^verbatim>\<open>new Date()\<close> of the fallback,
  \<open>date_now\<close> the later \<^verbatim>\<open>Date.now()\<close>.
\<close>

definition buildBackoffMetadata ::
  "(int \<Rightarrow> string) \<Rightarrow> cache_dir \<Rightarrow> string list \<Rightarrow> int \<Rightarrow> int \<Rightarrow> CacheMetadata"
where
  "buildBackoffMetadata toISOString dir tps new_date date_now =
     (let existing = readJsonFileOrDefault (last_updated_json dir) None;
          preservedTimestamp = (case existing of
                                  Some m \<Rightarrow> last_updated m
                                | None \<Rightarrow> toISOString new_date)
      in \<lparr>last_updated = preservedTimestamp,
          topics_researched = tps,
          next_update_after = toISOString (date_now + BACKOFF_HOURS * 60 * 60 * 1000)\<rparr>)"

definition hasExistingCache :: "cache_dir \<Rightarrow> bool" where
  "hasExistingCache dir = (staged_intel_md dir \<noteq> None)"

section \<open>Cache writer (write.ts) and gather.ts\<close>

definition writeCacheFiles ::
  "cache_dir \<Rightarrow> string \<Rightarrow> CacheMetadata \<Rightarrow> Last30DaysReport option list \<Rightarrow> cache_dir"
where
  "writeCacheFiles dir markdown metadata rawResults =
     (let filtered = List.map_filter (\<lambda>r. r) rawResults
      in dir\<lparr>staged_intel_md := Some markdown,
              staged_raw_json := Some (Json filtered),
              last_updated_json := Some (Json (Some metadata))\<rparr>)"

definition writeBackoffMetadata :: "cache_dir \<Rightarrow> CacheMetadata \<Rightarrow> cache_dir" where
  "writeBackoffMetadata dir metadata = dir\<lparr>last_updated_json := Some (Json (Some metadata))\<rparr>"

definition hasData :: "Last30DaysReport \<Rightarrow> bool" where
  "hasData report = (length (reddit report) + length (x_items report) + length (web report) > 0)"

section \<open>Commands (cli.ts)\<close>

text \<open>
  What the collaborators of one \<^verbatim>\<open>refresh\<close> run return, and the clock readings of the
  run in the order of the code: the configuration file (\<open>None\<close> when
  \<^verbatim>\<open>readJsonFileSync\<close> throws), the result of \<^verbatim>\<open>gatherTopics\<close>, the markdown that
  \<^verbatim>\<open>synthesize\<close> or \<^verbatim>\<open>formatMarkdown\<close> produce, the two readings of
  \<^verbatim>\<open>isCacheFresh\<close>, the two of \<^verbatim>\<open>buildBackoffMetadata\<close> and the \<^verbatim>\<open>new Date()\<close> of the
  successful path.

  \<^verbatim>\<open>nextUpdate.toISOString()\<close> throws a \<^verbatim>\<open>RangeError\<close> on the invalid date. This happens
  while the metadata object is built, before \<^verbatim>\<open>writeCacheFiles\<close> is called; the
  \<^verbatim>\<open>catch\<close> of \<^verbatim>\<open>main\<close> reports the status \<^verbatim>\<open>failed\<close>. In the model that run ends
  with \<open>Failed\<close> and the directory as it was.
\<close>

record refresh_run =
  config_file :: "CacheConfig option"
  gathered :: "Last30DaysReport option list"
  markdown_out :: string
  fresh_now1 :: int
  fresh_now2 :: int
  backoff_new_date :: int
  backoff_date_now :: int
  refresh_new_date :: int

definition executeRefresh ::
  "(string \<Rightarrow> jsnum) \<Rightarrow> (int \<Rightarrow> string) \<Rightarrow> CliOptions \<Rightarrow> refresh_run \<Rightarrow> cache_dir
     \<Rightarrow> RefreshStatus \<times> cache_dir"
where
  "executeRefresh parse toISOString options run dir =
     (if configPath options = [] then (Failed, dir)
      else if cacheDir options = [] then (Failed, dir)
      else
        (case config_file run of
           None \<Rightarrow> (Failed, dir)
         | Some config \<Rightarrow>
             if length (topics config) = 0 then (Failed, dir)
             else if \<not> force options \<and> isCacheFresh parse dir (fresh_now1 run) (fresh_now2 run)
             then (Fresh, dir)
             else
               (let hadCache = hasExistingCache dir;
                    results = gathered run;
                    successCount =
                      length (filter (\<lambda>r. case r of None \<Rightarrow> False | Some rep \<Rightarrow> hasData rep) results)
                in if successCount = 0 then
                     (let backoffMeta = buildBackoffMetadata toISOString dir (topics config)
                                          (backoff_new_date run) (backoff_date_now run)
                      in (if hadCache then Failed else No_cache,
                          writeBackoffMetadata dir backoffMeta))
                   else
                     (let now = refresh_new_date run;
                          updatedAt = toISOString now;
                          nextUpdate = calculateNextUpdate successCount (length (topics config))
                                         config (Some now)
                      in case nextUpdate of
                           None \<Rightarrow> (Failed, dir)
                         | Some next_time \<Rightarrow>
                             (let metadata = \<lparr>last_updated = updatedAt,
                                               topics_researched = topics config,
                                               next_update_after = toISOString next_time\<rparr>
                              in (Refreshed,
                                  writeCacheFiles dir (markdown_out run) metadata results))))))"

text \<open>
  \<^verbatim>\<open>executeReview\<close>: each of the three guards prints a usage message and leaves the
  process before anything is read; otherwise the ledger is read, changed and written
  back, and the status \<^verbatim>\<open>recorded\<close> is printed with the count and the decision.
  \<open>new_date\<close> is the \<^verbatim>\<open>new Date()\<close> of the run.
\<close>

datatype review_outcome =
  Exit_no_cache_dir | Exit_no_hashes | Exit_bad_decision | Recorded nat string

definition executeReview ::
  "(int \<Rightarrow> string) \<Rightarrow> CliOptions \<Rightarrow> cache_dir \<Rightarrow> int \<Rightarrow> review_outcome \<times> cache_dir"
where
  "executeReview toISOString options dir new_date =
     (if cacheDir options = [] then (Exit_no_cache_dir, dir)
      else if length (hashes options) = 0 then (Exit_no_hashes, dir)
      else if decision options \<notin> set [''accepted'', ''rejected''] then (Exit_bad_decision, dir)
      else
        (let now = toISOString new_date;
             newEntries = map (\<lambda>h. \<lparr>entry_hash = h, entry_decision = decision options,
                                      entry_date = now\<rparr>) (hashes options);
             existing = readJsonFileOrDefault (reviewed_hashes_json dir)
                          \<lparr>version = 1, reviewed = []\<rparr>;
             newHashSet = set (map entry_hash newEntries);
             existing1 = existing\<lparr>reviewed :=
                           filter (\<lambda>r. entry_hash r \<notin> newHashSet) (reviewed existing)\<rparr>;
             existing2 = existing1\<lparr>reviewed := reviewed existing1 @ newEntries\<rparr>
         in (Recorded (length newEntries) (decision options),
             dir\<lparr>reviewed_hashes_json := Some (Json existing2)\<rparr>)))"

section \<open>The specification's formulations\<close>

text \<open>
  The definitions of this section follow the words of the specification, not the code;
  the theorems compare them with the functions above.

  Section 4.2: an item passes unless its score is below \<open>minScore\<close> or its explanation is
  shorter than \<open>minSummaryLength\<close>. Section 4.3, steps 1 and 2: each report contributes
  the findings of its reddit items, then of its x items, then of its web items, the
  items that fail the filter left out; the reports follow each other in input order.
\<close>

definition spec_passes_quality :: "int \<Rightarrow> int \<Rightarrow> int \<Rightarrow> string \<Rightarrow> bool" where
  "spec_passes_quality minS minL sc why = (\<not> (sc < minS \<or> int (length why) < minL))"

definition spec_reddit_finding :: "(string \<Rightarrow> string) \<Rightarrow> string \<Rightarrow> reddit_item \<Rightarrow> Finding" where
  "spec_reddit_finding sha256 tp item =
     \<lparr>hash = sha256 (r_url item), type = Reddit, topic = tp, title = r_title item,
      summary = r_why_relevant item, url = r_url item, score = r_score item,
      date = r_date item\<rparr>"

definition spec_x_finding :: "(string \<Rightarrow> string) \<Rightarrow> string \<Rightarrow> x_item \<Rightarrow> Finding" where
  "spec_x_finding sha256 tp item =
     \<lparr>hash = sha256 (x_url item), type = X, topic = tp,
      title = (if 120 < length (x_text item) then take 120 (x_text item) @ ''...''
               else x_text item),
      summary = x_why_relevant item, url = x_url item, score = x_score item,
      date = x_date item\<rparr>"

definition spec_web_finding :: "(string \<Rightarrow> string) \<Rightarrow> string \<Rightarrow> web_item \<Rightarrow> Finding" where
  "spec_web_finding sha256 tp item =
     \<lparr>hash = sha256 (w_url item), type = Web, topic = tp, title = w_title item,
      summary = w_why_relevant item, url = w_url item, score = w_score item,
      date = None\<rparr>"

definition spec_report_candidates ::
  "(string \<Rightarrow> string) \<Rightarrow> int \<Rightarrow> int \<Rightarrow> Last30DaysReport \<Rightarrow> Finding list"
where
  "spec_report_candidates sha256 minS minL report =
     map (spec_reddit_finding sha256 (report_topic report))
       (filter (\<lambda>i. spec_passes_quality minS minL (r_score i) (r_why_relevant i)) (reddit report))
     @ map (spec_x_finding sha256 (report_topic report))
         (filter (\<lambda>i. spec_passes_quality minS minL (x_score i) (x_why_relevant i)) (x_items report))
     @ map (spec_web_finding sha256 (report_topic report))
         (filter (\<lambda>i. spec_passes_quality minS minL (w_score i) (w_why_relevant i)) (web report))"

definition spec_candidates ::
  "(string \<Rightarrow> string) \<Rightarrow> int \<Rightarrow> int \<Rightarrow> Last30DaysReport list \<Rightarrow> Finding list"
where
  "spec_candidates sha256 minS minL reports =
     concat (map (spec_report_candidates sha256 minS minL) reports)"

text \<open>
  Section 4.3, step 3: first occurrence wins. The candidate at position \<open>i\<close> is kept
  exactly when no candidate before it has its fingerprint, and the candidates kept stay
  in their order.
\<close>

definition spec_first_occurrences :: "Finding list \<Rightarrow> Finding list" where
  "spec_first_occurrences cand =
     map (\<lambda>i. cand ! i)
       (filter (\<lambda>i. hash (cand ! i) \<notin> hash ` set (take i cand)) [0..<length cand])"

text \<open>
  Section 4.6: fresh requires that the metadata exists and parses, that the content
  exists, that the age \<open>now - last_updated\<close> is at most 60 days, and that \<open>now\<close> is
  before \<open>next_update_after\<close>. An age and a deadline exist only for timestamps that can
  be read.
\<close>

definition spec_isFresh :: "(string \<Rightarrow> jsnum) \<Rightarrow> cache_dir \<Rightarrow> int \<Rightarrow> bool" where
  "spec_isFresh parse dir now =
     (case last_updated_json dir of
        Some (Json (Some m)) \<Rightarrow>
          staged_intel_md dir \<noteq> None
          \<and> (case parse (last_updated m) of
               Some lu \<Rightarrow> now - lu \<le> 60 * 24 * 60 * 60 * 1000 | None \<Rightarrow> False)
          \<and> (case parse (next_update_after m) of Some nu \<Rightarrow> now < nu | None \<Rightarrow> False)
      | _ \<Rightarrow> False)"

text \<open>
  Section 3, the invariant of \<^verbatim>\<open>CacheMetadata\<close>: \<open>next_update_after\<close> is not before
  \<open>last_updated\<close>, both read as times.
\<close>

definition spec_metadata_ordered :: "(string \<Rightarrow> jsnum) \<Rightarrow> CacheMetadata \<Rightarrow> bool" where
  "spec_metadata_ordered parse m =
     (case (parse (last_updated m), parse (next_update_after m)) of
        (Some lu, Some nu) \<Rightarrow> lu \<le> nu
      | _ \<Rightarrow> False)"

text \<open>
  Section 3, the ledger: at most one entry for each fingerprint.
\<close>

definition spec_one_entry_per_fingerprint :: "ReviewedEntry list \<Rightarrow> bool" where
  "spec_one_entry_per_fingerprint entries = distinct (map entry_hash entries)"

section \<open>Reading a directory back\<close>

text \<open>
  What a later reader obtains from the metadata file and from the ledger file of a
  directory, through \<^verbatim>\<open>readJsonFileOrDefault\<close> with the defaults the code passes.
\<close>

definition stored_metadata :: "cache_dir \<Rightarrow> CacheMetadata option" where
  "stored_metadata dir = readJsonFileOrDefault (last_updated_json dir) None"

definition ledger_of :: "cache_dir \<Rightarrow> ReviewedEntry list" where
  "ledger_of dir =
     reviewed (readJsonFileOrDefault (reviewed_hashes_json dir) \<lparr>version = 1, reviewed = []\<rparr>)"

section \<open>Concrete values for the examples\<close>

text \<open>
  The values of \<^verbatim>\<open>new Date(s).getTime()\<close> and of \<^verbatim>\<open>new Date(t).toISOString()\<close> at the
  instants of the examples below (\<open>1767225600000\<close> is midnight UTC of 2026-01-01). The
  theorems hold for every parser and printer; only the examples use these tables, and
  only at the strings and instants listed. \<^verbatim>\<open>new Date('not-a-date')\<close> is an invalid
  date. In the examples the identity stands for \<^verbatim>\<open>sha256\<close>: the theorems hold for every
  hash function, and like \<^verbatim>\<open>sha256\<close> the identity gives equal fingerprints to equal URLs
  only.
\<close>

definition Date_parse_sample :: "string \<Rightarrow> jsnum" where
  "Date_parse_sample s =
     (if s = ''2025-12-01T00:00:00.000Z'' then Some 1764547200000
      else if s = ''2025-12-31T00:00:00.000Z'' then Some 1767139200000
      else if s = ''2026-01-01T00:00:00.000Z'' then Some 1767225600000
      else if s = ''2026-01-01T04:00:00.000Z'' then Some 1767240000000
      else if s = ''2026-01-08T00:00:00.000Z'' then Some 1767830400000
      else if s = ''2026-01-31T00:00:00.000Z'' then Some 1769817600000
      else if s = ''2099-01-01T00:00:00.000Z'' then Some 4070908800000
      else None)"

definition toISOString_sample :: "int \<Rightarrow> string" where
  "toISOString_sample t =
     (if t = 1764547200000 then ''2025-12-01T00:00:00.000Z''
      else if t = 1767139200000 then ''2025-12-31T00:00:00.000Z''
      else if t = 1767225600000 then ''2026-01-01T00:00:00.000Z''
      else if t = 1767240000000 then ''2026-01-01T04:00:00.000Z''
      else if t = 1767830400000 then ''2026-01-08T00:00:00.000Z''
      else if t = 1769817600000 then ''2026-01-31T00:00:00.000Z''
      else if t = 4070908800000 then ''2099-01-01T00:00:00.000Z''
      else [])"

definition empty_dir :: cache_dir where
  "empty_dir = \<lparr>staged_intel_md = None, staged_raw_json = None, last_updated_json = None,
                reviewed_hashes_json = None\<rparr>"

text \<open>An explanation of exactly 40 characters, the default \<^verbatim>\<open>minSummaryLength\<close>.\<close>

definition good_summary :: string where
  "good_summary = replicate 40 CHR ''a''"

text \<open>
  Two reports: the reddit URL of the first comes back in the second with a higher score,
  the x item of the second has a score below the default threshold.
\<close>

definition demo_reports :: "Last30DaysReport list" where
  "demo_reports =
     [\<lparr>report_topic = ''first'',
       reddit = [\<lparr>r_title = ''post'', r_url = ''https://reddit.com/r/test/1'', subreddit = ''test'',
                  r_date = Some ''2025-01-01'', r_why_relevant = good_summary, r_score = 50,
                  comment_insights = []\<rparr>],
       x_items = [],
       web = [\<lparr>w_title = ''article'', w_url = ''https://example.com/article'',
               source_domain = ''example.com'', snippet = ''snippet'',
               w_why_relevant = good_summary, w_score = 25\<rparr>]\<rparr>,
      \<lparr>report_topic = ''second'',
       reddit = [\<lparr>r_title = ''post again'', r_url = ''https://reddit.com/r/test/1'',
                  subreddit = ''test'', r_date = None, r_why_relevant = good_summary,
                  r_score = 75, comment_insights = []\<rparr>],
       x_items = [\<lparr>x_text = ''tweet'', x_url = ''https://x.com/user/status/123'',
                   author_handle = ''user'', x_date = None, x_why_relevant = good_summary,
                   x_score = 24\<rparr>],
       web = []\<rparr>]"

definition low_reports :: "Last30DaysReport list" where
  "low_reports =
     [\<lparr>report_topic = ''low'',
       reddit = [\<lparr>r_title = ''post'', r_url = ''https://reddit.com/r/test/2'', subreddit = ''test'',
                  r_date = None, r_why_relevant = ''x'', r_score = 1, comment_insights = []\<rparr>],
       x_items = [],
       web = []\<rparr>]"

text \<open>Reports that hold a single item, one for each source.\<close>

definition reddit_only :: "string \<Rightarrow> reddit_item \<Rightarrow> Last30DaysReport" where
  "reddit_only tp item = \<lparr>report_topic = tp, reddit = [item], x_items = [], web = []\<rparr>"





text \<open>
  Configured thresholds: a minimum score of 60 with the default length, and a minimum
  score of 10 with a minimum length of 5.
\<close>

definition strict_score :: "QualityFilterOptions option" where
  "strict_score = Some \<lparr>minScore = Some 60, minSummaryLength = None\<rparr>"



definition boundary_item :: reddit_item where
  "boundary_item =
     \<lparr>r_title = ''post'', r_url = ''https://reddit.com/r/test/4'', subreddit = ''test'',
      r_date = None, r_why_relevant = good_summary, r_score = 25, comment_insights = []\<rparr>"




text \<open>A directory with staged raw results and a ledger with the given entries.\<close>

definition staged_dir :: "ReviewedEntry list \<Rightarrow> cache_dir" where
  "staged_dir entries =
     \<lparr>staged_intel_md = Some ''# Community Intelligence'',
      staged_raw_json = Some (Json demo_reports),
      last_updated_json = None,
      reviewed_hashes_json = Some (Json \<lparr>version = 1, reviewed = entries\<rparr>)\<rparr>"

definition reddit_reviewed :: ReviewedEntry where
  "reddit_reviewed =
     \<lparr>entry_hash = ''https://reddit.com/r/test/1'', entry_decision = ''accepted'',
      entry_date = ''2026-01-01T00:00:00.000Z''\<rparr>"

definition web_reviewed :: ReviewedEntry where
  "web_reviewed =
     \<lparr>entry_hash = ''https://example.com/article'', entry_decision = ''rejected'',
      entry_date = ''2026-01-01T00:00:00.000Z''\<rparr>"

text \<open>
  Directories with content and metadata: one whose \<open>last_updated\<close> is not a date, one
  written in December 2025 whose deadline has passed, one whose timestamps lie in 2099.
\<close>

definition unreadable_age_dir :: cache_dir where
  "unreadable_age_dir =
     \<lparr>staged_intel_md = Some ''# Community Intelligence'',
      staged_raw_json = None,
      last_updated_json = Some (Json (Some
        \<lparr>last_updated = ''not-a-date'', topics_researched = [''topic''],
         next_update_after = ''2099-01-01T00:00:00.000Z''\<rparr>)),
      reviewed_hashes_json = None\<rparr>"

definition december_dir :: cache_dir where
  "december_dir =
     \<lparr>staged_intel_md = Some ''# Community Intelligence'',
      staged_raw_json = None,
      last_updated_json = Some (Json (Some
        \<lparr>last_updated = ''2025-12-01T00:00:00.000Z'', topics_researched = [''old''],
         next_update_after = ''2025-12-31T00:00:00.000Z''\<rparr>)),
      reviewed_hashes_json = None\<rparr>"

definition future_dir :: cache_dir where
  "future_dir =
     \<lparr>staged_intel_md = Some ''# Community Intelligence'',
      staged_raw_json = None,
      last_updated_json = Some (Json (Some
        \<lparr>last_updated = ''2099-01-01T00:00:00.000Z'', topics_researched = [''a''],
         next_update_after = ''2099-01-01T00:00:00.000Z''\<rparr>)),
      reviewed_hashes_json = None\<rparr>"

text \<open>
  The configuration of \<^verbatim>\<open>cache.test.ts\<close>, one with an interval of 100000000 days, and
  one with a negative interval.
\<close>

definition test_config :: CacheConfig where
  "test_config =
     \<lparr>topics = [''a'', ''b'', ''c'', ''d''], refreshIntervalDays = Some 30,
      thinCacheIntervalDays = Some 7, context_cfg = None, days_cfg = None,
      minScore_cfg = None, minSummaryLength_cfg = None\<rparr>"

definition huge_config :: CacheConfig where
  "huge_config =
     \<lparr>topics = [''a''], refreshIntervalDays = Some 100000000, thinCacheIntervalDays = None,
      context_cfg = None, days_cfg = None, minScore_cfg = None, minSummaryLength_cfg = None\<rparr>"

definition negative_config :: CacheConfig where
  "negative_config =
     \<lparr>topics = [''a''], refreshIntervalDays = Some (- 1), thinCacheIntervalDays = None,
      context_cfg = None, days_cfg = None, minScore_cfg = None, minSummaryLength_cfg = None\<rparr>"

text \<open>Options of a \<^verbatim>\<open>review\<close> and of a \<^verbatim>\<open>refresh\<close> command, ledgers, and a run at 2026-01-01.\<close>

definition review_options :: "string list \<Rightarrow> string \<Rightarrow> CliOptions" where
  "review_options hs d =
     \<lparr>command = Review_cmd, configPath = [], cacheDir = ''/cache'', noSynthesize = False,
      force = False, verbose = False, days = None, hashes = hs, decision = d\<rparr>"

definition twice_b_dir :: cache_dir where
  "twice_b_dir =
     empty_dir\<lparr>reviewed_hashes_json := Some (Json
       \<lparr>version = 1,
        reviewed = [\<lparr>entry_hash = ''b'', entry_decision = ''accepted'',
                     entry_date = ''2025-12-01T00:00:00.000Z''\<rparr>,
                    \<lparr>entry_hash = ''b'', entry_decision = ''rejected'',
                     entry_date = ''2025-12-01T00:00:00.000Z''\<rparr>]\<rparr>)\<rparr>"

definition reviewed_b_dir :: cache_dir where
  "reviewed_b_dir =
     empty_dir\<lparr>reviewed_hashes_json := Some (Json
       \<lparr>version = 1,
        reviewed = [\<lparr>entry_hash = ''a'', entry_decision = ''rejected'',
                     entry_date = ''2025-12-01T00:00:00.000Z''\<rparr>,
                    \<lparr>entry_hash = ''b'', entry_decision = ''accepted'',
                     entry_date = ''2025-12-01T00:00:00.000Z''\<rparr>]\<rparr>)\<rparr>"

definition refresh_options :: "bool \<Rightarrow> CliOptions" where
  "refresh_options forced =
     \<lparr>command = Refresh_cmd, configPath = ''/community-intel.json'', cacheDir = ''/cache'',
      noSynthesize = True, force = forced, verbose = False, days = None, hashes = [],
      decision = ''accepted''\<rparr>"

definition run_at_2026 :: "CacheConfig \<Rightarrow> Last30DaysReport option list \<Rightarrow> refresh_run" where
  "run_at_2026 config results =
     \<lparr>config_file = Some config, gathered = results, markdown_out = ''# Community Intelligence'',
      fresh_now1 = 1767225600000, fresh_now2 = 1767225600000,
      backoff_new_date = 1767225600000, backoff_date_now = 1767225600000,
      refresh_new_date = 1767225600000\<rparr>"


section \<open>The extraction loops compute the specification's candidate list\<close>

text \<open>
  Each loop appends, to the findings it was given, the findings of the items that pass
  the filter, in the order of the items.
\<close>

lemma reddit_loop_eq:
  "reddit_loop sha256 minS minL tp items acc =
     acc @ map (spec_reddit_finding sha256 tp)
             (filter (\<lambda>i. spec_passes_quality minS minL (r_score i) (r_why_relevant i)) items)"
  by (induction items arbitrary: acc)
     (simp_all add: spec_passes_quality_def spec_reddit_finding_def computeFindingHash_def)

lemma x_loop_eq:
  "x_loop sha256 minS minL tp items acc =
     acc @ map (spec_x_finding sha256 tp)
             (filter (\<lambda>i. spec_passes_quality minS minL (x_score i) (x_why_relevant i)) items)"
  by (induction items arbitrary: acc)
     (simp_all add: spec_passes_quality_def spec_x_finding_def computeFindingHash_def Let_def)

lemma web_loop_eq:
  "web_loop sha256 minS minL tp items acc =
     acc @ map (spec_web_finding sha256 tp)
             (filter (\<lambda>i. spec_passes_quality minS minL (w_score i) (w_why_relevant i)) items)"
  by (induction items arbitrary: acc)
     (simp_all add: spec_passes_quality_def spec_web_finding_def computeFindingHash_def)

lemma report_loop_eq:
  "report_loop sha256 minS minL reports acc =
     acc @ concat (map (spec_report_candidates sha256 minS minL) reports)"
  by (induction reports arbitrary: acc)
     (simp_all add: reddit_loop_eq x_loop_eq web_loop_eq spec_report_candidates_def)

text \<open>
  The thresholds the loops run with are the configured ones where the options give them,
  25 and 40 where they do not.
\<close>

lemma extractFindings_eq:
  "extractFindings sha reports options =
     dedup_filter {}
       (spec_candidates sha
          (case options of None \<Rightarrow> 25
           | Some opts \<Rightarrow> (case minScore opts of None \<Rightarrow> 25 | Some v \<Rightarrow> v))
          (case options of None \<Rightarrow> 40
           | Some opts \<Rightarrow> (case minSummaryLength opts of None \<Rightarrow> 40 | Some v \<Rightarrow> v))
          reports)"
  by (simp add: extractFindings_def spec_candidates_def report_loop_eq Let_def
        CONFIG_DEFAULTS_minScore_def CONFIG_DEFAULTS_minSummaryLength_def
        split: option.splits)

lemma extractFindings_empty: "extractFindings sha [] options = []"
  by (simp add: extractFindings_eq spec_candidates_def)

subsection \<open>The filter with the set of seen fingerprints\<close>

lemma dedup_filter_hashes:
  "hash ` set (dedup_filter seen fs) = hash ` set fs - seen"
  by (induction fs arbitrary: seen) auto

lemma dedup_filter_distinct: "distinct (map hash (dedup_filter seen fs))"
proof (induction fs arbitrary: seen)
  case Nil
  show ?case by simp
next
  case (Cons f fs)
  have "hash f \<notin> hash ` set (dedup_filter (insert (hash f) seen) fs)"
    by (simp add: dedup_filter_hashes)
  with Cons show ?case by simp
qed

lemma dedup_filter_subseq: "subseq (dedup_filter seen fs) fs"
  by (induction fs arbitrary: seen) auto

lemma dedup_filter_first:
  "f \<in> set (dedup_filter seen fs) \<Longrightarrow> find (\<lambda>g. hash g = hash f) fs = Some f"
proof (induction fs arbitrary: seen)
  case Nil
  then show ?case by simp
next
  case (Cons a fs)
  show ?case
  proof (cases "hash a \<in> seen")
    case True
    with Cons.prems have mem: "f \<in> set (dedup_filter seen fs)" by simp
    then have "hash f \<in> hash ` set fs - seen"
      using dedup_filter_hashes [of seen fs] by blast
    with True have "hash a \<noteq> hash f" by auto
    with Cons.IH [OF mem] show ?thesis by simp
  next
    case False
    with Cons.prems have "f = a \<or> f \<in> set (dedup_filter (insert (hash a) seen) fs)" by auto
    then show ?thesis
    proof
      assume "f = a"
      then show ?thesis by simp
    next
      assume mem: "f \<in> set (dedup_filter (insert (hash a) seen) fs)"
      then have "hash f \<in> hash ` set fs - insert (hash a) seen"
        using dedup_filter_hashes [of "insert (hash a) seen" fs] by blast
      then have "hash a \<noteq> hash f" by auto
      with Cons.IH [OF mem] show ?thesis by simp
    qed
  qed
qed

lemma dedup_filter_length:
  "length (dedup_filter seen fs) = card (hash ` set fs - seen)"
proof -
  have "length (dedup_filter seen fs) = length (map hash (dedup_filter seen fs))" by simp
  also have "\<dots> = card (set (map hash (dedup_filter seen fs)))"
    using dedup_filter_distinct [of seen fs] by (simp only: distinct_card)
  also have "\<dots> = card (hash ` set fs - seen)"
    by (simp add: dedup_filter_hashes)
  finally show ?thesis .
qed

text \<open>
  The filter keeps the element at position \<open>i\<close> exactly when its fingerprint is neither
  in the set it started with nor the fingerprint of an earlier element.
\<close>

lemma dedup_filter_positions:
  "dedup_filter seen fs =
     map (\<lambda>i. fs ! i)
       (filter (\<lambda>i. hash (fs ! i) \<notin> seen \<union> hash ` set (take i fs)) [0..<length fs])"
proof (induction fs arbitrary: seen)
  case Nil
  show ?case by simp
next
  case (Cons a fs)
  have upt: "[0..<length (a # fs)] = 0 # map Suc [0..<length fs]"
    by (simp add: upt_conv_Cons map_Suc_upt del: upt_Suc)
  have shift: "filter (\<lambda>i. hash ((a # fs) ! i) \<notin> seen \<union> hash ` set (take i (a # fs)))
                 (map Suc [0..<length fs])
               = map Suc (filter (\<lambda>i. hash (fs ! i) \<notin> insert (hash a) seen \<union> hash ` set (take i fs))
                            [0..<length fs])"
    by (simp add: filter_map comp_def conj_ac)
  have nth_shift: "map (\<lambda>i. (a # fs) ! i) (map Suc js) = map (\<lambda>i. fs ! i) js" for js
    by simp
  show ?case
  proof (cases "hash a \<in> seen")
    case True
    then have same: "insert (hash a) seen = seen" by auto
    from True show ?thesis
      by (simp only: dedup_filter.simps if_True upt list.map filter.simps shift nth_shift same
            Cons.IH [of seen])
         simp
  next
    case False
    then show ?thesis
      by (simp only: dedup_filter.simps if_False upt list.map filter.simps shift nth_shift
            Cons.IH [of "insert (hash a) seen"])
         simp
  qed
qed

lemma extractFindings_first_occurrences:
  "dedup_filter {} cand = spec_first_occurrences cand"
  by (simp add: dedup_filter_positions [of "{}" cand] spec_first_occurrences_def)


lemma good_summary_length [simp]: "length good_summary = 40" by (simp add: good_summary_def)

section \<open>Extraction and deduplication\<close>

text \<open>
  C5. For every sequence of reports and every filter configuration, with the configured
  thresholds (25 and 40 where the options leave them out): the result of
  \<^verbatim>\<open>extractFindings\<close> is the list of first occurrences of the candidate list, the candidates
  being the items that pass the filter, in report order and, within a report, reddit,
  then x, then web. So it is a subsequence of the candidates; its fingerprints are
  pairwise distinct and are exactly the fingerprints of the candidates; every finding it
  keeps is the first candidate with its fingerprint, whatever the scores; its length is
  the number of distinct fingerprints among the candidates. The empty report list gives
  the empty list, and so does an input all of whose items fail the filter.
\<close>

theorem extractFindings_dedup_first_wins:
  "let minS = (case options of None \<Rightarrow> 25
               | Some opts \<Rightarrow> (case minScore opts of None \<Rightarrow> 25 | Some v \<Rightarrow> v));
       minL = (case options of None \<Rightarrow> 40
               | Some opts \<Rightarrow> (case minSummaryLength opts of None \<Rightarrow> 40 | Some v \<Rightarrow> v));
       cand = spec_candidates sha minS minL reports;
       result = extractFindings sha reports options
   in result = spec_first_occurrences cand
      \<and> subseq result cand
      \<and> distinct (map hash result)
      \<and> hash ` set result = hash ` set cand
      \<and> (\<forall>f \<in> set result. find (\<lambda>g. hash g = hash f) cand = Some f)
      \<and> length result = card (hash ` set cand)
      \<and> extractFindings sha [] options = []
      \<and> ((\<forall>r \<in> set reports.
             (\<forall>i \<in> set (reddit r). r_score i < minS \<or> int (length (r_why_relevant i)) < minL)
           \<and> (\<forall>i \<in> set (x_items r). x_score i < minS \<or> int (length (x_why_relevant i)) < minL)
           \<and> (\<forall>i \<in> set (web r). w_score i < minS \<or> int (length (w_why_relevant i)) < minL))
          \<longrightarrow> result = [])"
proof -
  define minS where
    "minS = (case options of None \<Rightarrow> (25::int)
             | Some opts \<Rightarrow> (case minScore opts of None \<Rightarrow> 25 | Some v \<Rightarrow> v))"
  define minL where
    "minL = (case options of None \<Rightarrow> (40::int)
             | Some opts \<Rightarrow> (case minSummaryLength opts of None \<Rightarrow> 40 | Some v \<Rightarrow> v))"
  define cand where "cand = spec_candidates sha minS minL reports"
  define result where "result = extractFindings sha reports options"
  have res: "result = dedup_filter {} cand"
    by (simp add: result_def cand_def minS_def minL_def extractFindings_eq)
  have p: "result = spec_first_occurrences cand"
    by (simp add: res extractFindings_first_occurrences)
  have a: "subseq result cand"
    by (simp add: res dedup_filter_subseq)
  have b: "distinct (map hash result)"
    by (simp add: res dedup_filter_distinct)
  have c: "hash ` set result = hash ` set cand"
    by (simp add: res dedup_filter_hashes)
  have d: "\<forall>f \<in> set result. find (\<lambda>g. hash g = hash f) cand = Some f"
    using dedup_filter_first [of _ "{}" cand] by (simp add: res)
  have e: "length result = card (hash ` set cand)"
    by (simp add: res dedup_filter_length)
  have f: "extractFindings sha [] options = []"
    by (rule extractFindings_empty)
  have g: "result = []"
    if all: "\<forall>r \<in> set reports.
          (\<forall>i \<in> set (reddit r). r_score i < minS \<or> int (length (r_why_relevant i)) < minL)
        \<and> (\<forall>i \<in> set (x_items r). x_score i < minS \<or> int (length (x_why_relevant i)) < minL)
        \<and> (\<forall>i \<in> set (web r). w_score i < minS \<or> int (length (w_why_relevant i)) < minL)"
  proof -
    have "spec_report_candidates sha minS minL r = []" if "r \<in> set reports" for r
      using that all
      by (auto simp add: spec_report_candidates_def spec_passes_quality_def filter_empty_conv)
    then have "cand = []"
      by (simp add: cand_def spec_candidates_def)
    then show ?thesis by (simp add: res)
  qed
  from p a b c d e f g show ?thesis
    unfolding Let_def minS_def [symmetric] minL_def [symmetric] cand_def [symmetric]
      result_def [symmetric]
    by blast
qed

text \<open>
  C5, at concrete inputs. Of the two reports of \<open>demo_reports\<close> three items pass the
  default filter, two fingerprints are distinct, and the findings kept are the reddit and
  the web finding of the first report, in this order, also when the reports are given
  twice. With a configured minimum score of 60 only the reddit item of the second report
  passes, and it is kept. The single item of \<open>low_reports\<close> fails the default filter.
\<close>

theorem extractFindings_dedup_first_wins_witness:
  "extractFindings (\<lambda>u. u) demo_reports None =
     [\<lparr>hash = ''https://reddit.com/r/test/1'', type = Reddit, topic = ''first'',
       title = ''post'', summary = good_summary, url = ''https://reddit.com/r/test/1'',
       score = 50, date = Some ''2025-01-01''\<rparr>,
      \<lparr>hash = ''https://example.com/article'', type = Web, topic = ''first'',
       title = ''article'', summary = good_summary, url = ''https://example.com/article'',
       score = 25, date = None\<rparr>]
   \<and> extractFindings (\<lambda>u. u) (demo_reports @ demo_reports) None
       = extractFindings (\<lambda>u. u) demo_reports None
   \<and> card (hash ` set (spec_candidates (\<lambda>u. u) 25 40 demo_reports)) = 2
   \<and> length (spec_candidates (\<lambda>u. u) 25 40 demo_reports) = 3
   \<and> extractFindings (\<lambda>u. u) demo_reports strict_score =
     [\<lparr>hash = ''https://reddit.com/r/test/1'', type = Reddit, topic = ''second'',
       title = ''post again'', summary = good_summary, url = ''https://reddit.com/r/test/1'',
       score = 75, date = None\<rparr>]
   \<and> extractFindings (\<lambda>u. u) low_reports None = []"
proof -
  note defs = extractFindings_def spec_candidates_def spec_report_candidates_def
    spec_passes_quality_def spec_reddit_finding_def spec_x_finding_def spec_web_finding_def
    demo_reports_def low_reports_def strict_score_def Let_def
    CONFIG_DEFAULTS_minScore_def CONFIG_DEFAULTS_minSummaryLength_def computeFindingHash_def
  have cand: "spec_candidates (\<lambda>u. u) 25 40 demo_reports =
     [\<lparr>hash = ''https://reddit.com/r/test/1'', type = Reddit, topic = ''first'',
       title = ''post'', summary = good_summary, url = ''https://reddit.com/r/test/1'',
       score = 50, date = Some ''2025-01-01''\<rparr>,
      \<lparr>hash = ''https://example.com/article'', type = Web, topic = ''first'',
       title = ''article'', summary = good_summary, url = ''https://example.com/article'',
       score = 25, date = None\<rparr>,
      \<lparr>hash = ''https://reddit.com/r/test/1'', type = Reddit, topic = ''second'',
       title = ''post again'', summary = good_summary, url = ''https://reddit.com/r/test/1'',
       score = 75, date = None\<rparr>]"
    by (simp add: defs)
  note on_demo = extractFindings_dedup_first_wins
    [where sha = "\<lambda>u. u" and options = None and reports = demo_reports,
     unfolded Let_def option.case]
  from on_demo have by_spec: "extractFindings (\<lambda>u. u) demo_reports None =
                   spec_first_occurrences (spec_candidates (\<lambda>u. u) 25 40 demo_reports)"
    by blast
  have c1: "extractFindings (\<lambda>u. u) demo_reports None =
     [\<lparr>hash = ''https://reddit.com/r/test/1'', type = Reddit, topic = ''first'',
       title = ''post'', summary = good_summary, url = ''https://reddit.com/r/test/1'',
       score = 50, date = Some ''2025-01-01''\<rparr>,
      \<lparr>hash = ''https://example.com/article'', type = Web, topic = ''first'',
       title = ''article'', summary = good_summary, url = ''https://example.com/article'',
       score = 25, date = None\<rparr>]"
    unfolding by_spec cand by (simp add: spec_first_occurrences_def upt_rec)
  have c2: "extractFindings (\<lambda>u. u) (demo_reports @ demo_reports) None
              = extractFindings (\<lambda>u. u) demo_reports None"
    by (simp add: defs)
  from on_demo have "length (extractFindings (\<lambda>u. u) demo_reports None)
          = card (hash ` set (spec_candidates (\<lambda>u. u) 25 40 demo_reports))"
    by blast
  then have c3: "card (hash ` set (spec_candidates (\<lambda>u. u) 25 40 demo_reports)) = 2"
    by (simp add: c1)
  have c4: "length (spec_candidates (\<lambda>u. u) 25 40 demo_reports) = 3"
    unfolding cand by simp
  have c5: "extractFindings (\<lambda>u. u) demo_reports strict_score =
     [\<lparr>hash = ''https://reddit.com/r/test/1'', type = Reddit, topic = ''second'',
       title = ''post again'', summary = good_summary, url = ''https://reddit.com/r/test/1'',
       score = 75, date = None\<rparr>]"
    by (simp add: defs)
  note on_low = extractFindings_dedup_first_wins
    [where sha = "\<lambda>u. u" and options = None and reports = low_reports,
     unfolded Let_def option.case]
  have all_fail: "\<forall>r \<in> set low_reports.
      (\<forall>i \<in> set (reddit r). r_score i < 25 \<or> int (length (r_why_relevant i)) < 40)
    \<and> (\<forall>i \<in> set (x_items r). x_score i < 25 \<or> int (length (x_why_relevant i)) < 40)
    \<and> (\<forall>i \<in> set (web r). w_score i < 25 \<or> int (length (w_why_relevant i)) < 40)"
    by (simp add: low_reports_def)
  from on_low all_fail have c6: "extractFindings (\<lambda>u. u) low_reports None = []"
    by blast
  from c1 c2 c3 c4 c5 c6 show ?thesis by blast
qed

section \<open>The quality filter\<close>








section \<open>The unreviewed-findings query\<close>

text \<open>
  C7. \<^verbatim>\<open>getUnreviewedFindings\<close> returns \<open>No_staged\<close> when the raw-results file is absent;
  \<open>No_new\<close> when the file exists and either nothing is extracted from it or every
  extracted finding's fingerprint has a ledger entry; and \<open>Has_new\<close>, with exactly the
  extracted findings whose fingerprint has no ledger entry, in extraction order, when
  there is such a finding. In every case the function leaves the directory, and so the
  ledger, as it found it, and a second call on the directory it leaves returns what the
  first call returned.
\<close>

theorem getUnreviewedFindings_statuses:
  "let out = getUnreviewedFindings sha dir options;
       result = fst out;
       extracted = extractFindings sha (readJsonFileOrDefault (staged_raw_json dir) []) options;
       ledger = reviewed (readJsonFileOrDefault (reviewed_hashes_json dir)
                            \<lparr>version = 1, reviewed = []\<rparr>)
   in (staged_raw_json dir = None \<longrightarrow> result = \<lparr>status = No_staged, findings = []\<rparr>)
    \<and> (staged_raw_json dir \<noteq> None \<and> extracted = []
          \<longrightarrow> result = \<lparr>status = No_new, findings = []\<rparr>)
    \<and> (staged_raw_json dir \<noteq> None
        \<and> (\<forall>f \<in> set extracted. \<exists>e \<in> set ledger. entry_hash e = hash f)
          \<longrightarrow> result = \<lparr>status = No_new, findings = []\<rparr>)
    \<and> (staged_raw_json dir \<noteq> None
        \<and> (\<exists>f \<in> set extracted. \<forall>e \<in> set ledger. entry_hash e \<noteq> hash f)
          \<longrightarrow> result = \<lparr>status = Has_new,
                          findings = filter (\<lambda>f. \<forall>e \<in> set ledger. entry_hash e \<noteq> hash f)
                                       extracted\<rparr>)
    \<and> snd out = dir
    \<and> reviewed_hashes_json (snd out) = reviewed_hashes_json dir
    \<and> getUnreviewedFindings sha (snd out) options = out"
proof -
  define extracted where
    "extracted = extractFindings sha (readJsonFileOrDefault (staged_raw_json dir) []) options"
  define ledger where
    "ledger = reviewed (readJsonFileOrDefault (reviewed_hashes_json dir)
                          \<lparr>version = 1, reviewed = []\<rparr>)"
  have flt: "filter (\<lambda>f. hash f \<notin> set (map entry_hash ledger)) extracted
             = filter (\<lambda>f. \<forall>e \<in> set ledger. entry_hash e \<noteq> hash f) extracted"
    by (rule filter_cong) (auto simp add: image_iff)
  have unfold: "getUnreviewedFindings sha dir options =
      (if staged_raw_json dir = None then (\<lparr>status = No_staged, findings = []\<rparr>, dir)
       else if extracted = [] then (\<lparr>status = No_new, findings = []\<rparr>, dir)
       else if filter (\<lambda>f. \<forall>e \<in> set ledger. entry_hash e \<noteq> hash f) extracted = []
       then (\<lparr>status = No_new, findings = []\<rparr>, dir)
       else (\<lparr>status = Has_new,
              findings = filter (\<lambda>f. \<forall>e \<in> set ledger. entry_hash e \<noteq> hash f) extracted\<rparr>,
             dir))"
    unfolding getUnreviewedFindings_def Let_def extracted_def [symmetric] ledger_def [symmetric]
      flt length_0_conv
    by simp
  have same_dir: "snd (getUnreviewedFindings sha dir options) = dir"
    by (simp add: unfold)
  have all_rev: "filter (\<lambda>f. \<forall>e \<in> set ledger. entry_hash e \<noteq> hash f) extracted = []"
    if "\<forall>f \<in> set extracted. \<exists>e \<in> set ledger. entry_hash e = hash f"
    using that by (auto simp add: filter_empty_conv)
  have some_new: "filter (\<lambda>f. \<forall>e \<in> set ledger. entry_hash e \<noteq> hash f) extracted \<noteq> []
                  \<and> extracted \<noteq> []"
    if "\<exists>f \<in> set extracted. \<forall>e \<in> set ledger. entry_hash e \<noteq> hash f"
    using that by (auto simp add: filter_empty_conv)
  show ?thesis
    unfolding Let_def same_dir extracted_def [symmetric] ledger_def [symmetric]
    unfolding unfold
    using all_rev some_new by auto
qed

lemma demo_extracted:
  "extractFindings (\<lambda>u. u) demo_reports None =
     [\<lparr>hash = ''https://reddit.com/r/test/1'', type = Reddit, topic = ''first'',
       title = ''post'', summary = good_summary, url = ''https://reddit.com/r/test/1'',
       score = 50, date = Some ''2025-01-01''\<rparr>,
      \<lparr>hash = ''https://example.com/article'', type = Web, topic = ''first'',
       title = ''article'', summary = good_summary, url = ''https://example.com/article'',
       score = 25, date = None\<rparr>]"
  by (simp add: extractFindings_def demo_reports_def Let_def CONFIG_DEFAULTS_minScore_def
        CONFIG_DEFAULTS_minSummaryLength_def computeFindingHash_def)

text \<open>
  C7, at concrete inputs: the empty directory; a directory whose raw results are the empty
  list; the two findings of \<open>demo_reports\<close> with both, one and none of them reviewed;
  and the directory and the ledger after a call.
\<close>

theorem getUnreviewedFindings_statuses_witness:
  "staged_raw_json empty_dir = None
   \<and> getUnreviewedFindings (\<lambda>u. u) empty_dir None
       = (\<lparr>status = No_staged, findings = []\<rparr>, empty_dir)
   \<and> staged_raw_json (empty_dir\<lparr>staged_raw_json := Some (Json [])\<rparr>) \<noteq> None
   \<and> fst (getUnreviewedFindings (\<lambda>u. u) (empty_dir\<lparr>staged_raw_json := Some (Json [])\<rparr>) None)
       = \<lparr>status = No_new, findings = []\<rparr>
   \<and> staged_raw_json (staged_dir [reddit_reviewed, web_reviewed]) \<noteq> None
   \<and> getUnreviewedFindings (\<lambda>u. u) (staged_dir [reddit_reviewed, web_reviewed]) None
       = (\<lparr>status = No_new, findings = []\<rparr>, staged_dir [reddit_reviewed, web_reviewed])
   \<and> status (fst (getUnreviewedFindings (\<lambda>u. u) (staged_dir [reddit_reviewed]) None)) = Has_new
   \<and> map url (findings (fst (getUnreviewedFindings (\<lambda>u. u) (staged_dir [reddit_reviewed]) None)))
       = [''https://example.com/article'']
   \<and> snd (getUnreviewedFindings (\<lambda>u. u) (staged_dir [reddit_reviewed]) None)
       = staged_dir [reddit_reviewed]
   \<and> ledger_of (snd (getUnreviewedFindings (\<lambda>u. u) (staged_dir [reddit_reviewed]) None))
       = [reddit_reviewed]
   \<and> map url (findings (fst (getUnreviewedFindings (\<lambda>u. u) (staged_dir []) None)))
       = [''https://reddit.com/r/test/1'', ''https://example.com/article'']"
  using getUnreviewedFindings_statuses
          [where sha = "\<lambda>u. u" and dir = empty_dir and options = None]
        getUnreviewedFindings_statuses
          [where sha = "\<lambda>u. u" and dir = "empty_dir\<lparr>staged_raw_json := Some (Json [])\<rparr>"
             and options = None]
        getUnreviewedFindings_statuses
          [where sha = "\<lambda>u. u" and dir = "staged_dir [reddit_reviewed, web_reviewed]"
             and options = None]
        getUnreviewedFindings_statuses
          [where sha = "\<lambda>u. u" and dir = "staged_dir [reddit_reviewed]" and options = None]
        getUnreviewedFindings_statuses
          [where sha = "\<lambda>u. u" and dir = "staged_dir []" and options = None]
  by (simp add: Let_def getUnreviewedFindings_def empty_dir_def staged_dir_def
        readJsonFileOrDefault_def demo_extracted reddit_reviewed_def web_reviewed_def
        extractFindings_empty ledger_of_def)

text \<open>
  C10. When the raw-results file exists and cannot be parsed, \<^verbatim>\<open>getUnreviewedFindings\<close>
  returns \<open>No_new\<close> with no findings: the empty report list stands in for the file, and
  the status is not \<open>No_staged\<close>. The directory stays as it was.
\<close>

theorem corrupt_raw_results_no_new:
  "staged_raw_json dir = Some Unparsable \<Longrightarrow>
     getUnreviewedFindings sha dir options = (\<lparr>status = No_new, findings = []\<rparr>, dir)"
  by (simp add: getUnreviewedFindings_def readJsonFileOrDefault_def extractFindings_empty)

text \<open>C10, at a directory whose only file is an unparsable raw-results file.\<close>

theorem corrupt_raw_results_no_new_witness:
  "staged_raw_json (empty_dir\<lparr>staged_raw_json := Some Unparsable\<rparr>) = Some Unparsable
   \<and> getUnreviewedFindings (\<lambda>u. u) (empty_dir\<lparr>staged_raw_json := Some Unparsable\<rparr>) None
       = (\<lparr>status = No_new, findings = []\<rparr>, empty_dir\<lparr>staged_raw_json := Some Unparsable\<rparr>)"
  using corrupt_raw_results_no_new
          [where dir = "empty_dir\<lparr>staged_raw_json := Some Unparsable\<rparr>"
             and sha = "\<lambda>u. u" and options = None]
  by simp


section \<open>Staleness\<close>

text \<open>
  Where \<^verbatim>\<open>isCacheFresh\<close> answers as section 4.6 of the specification says: without a
  metadata file, without a content file, with metadata that is not JSON or is
  \<^verbatim>\<open>null\<close>, and with a deadline that cannot be read, the cache is not fresh; and when
  \<open>last_updated\<close> can be read, the answer is the specification's, the age bound of 60
  days inclusive and the deadline strict.
\<close>

lemma isCacheFresh_no_metadata_file:
  "last_updated_json dir = None \<Longrightarrow> \<not> isCacheFresh parse dir now1 now2"
  by (simp add: isCacheFresh_def)

lemma isCacheFresh_no_content_file:
  "staged_intel_md dir = None \<Longrightarrow> \<not> isCacheFresh parse dir now1 now2"
  by (simp add: isCacheFresh_def)

lemma isCacheFresh_corrupt_metadata:
  "last_updated_json dir = Some Unparsable \<or> last_updated_json dir = Some (Json None)
     \<Longrightarrow> \<not> isCacheFresh parse dir now1 now2"
  by (auto simp add: isCacheFresh_def readJsonFileOrDefault_def)

lemma isCacheFresh_unreadable_deadline:
  "last_updated_json dir = Some (Json (Some m)) \<Longrightarrow> parse (next_update_after m) = None
     \<Longrightarrow> \<not> isCacheFresh parse dir now1 now2"
  by (simp add: isCacheFresh_def readJsonFileOrDefault_def js_gt_def Let_def)

lemma isCacheFresh_readable_age:
  "last_updated_json dir = Some (Json (Some m)) \<Longrightarrow> parse (last_updated m) = Some lu
     \<Longrightarrow> isCacheFresh parse dir now1 now2 \<longleftrightarrow>
           staged_intel_md dir \<noteq> None
           \<and> now1 - lu \<le> 60 * 24 * 60 * 60 * 1000
           \<and> (case parse (next_update_after m) of Some nu \<Rightarrow> now2 < nu | None \<Rightarrow> False)"
  by (auto simp add: isCacheFresh_def readJsonFileOrDefault_def js_gt_def
        js_sub_def Let_def MAX_CACHE_AGE_DAYS_def split: option.splits)

lemma isCacheFresh_spec_isFresh:
  "last_updated_json dir = Some (Json (Some m)) \<Longrightarrow> parse (last_updated m) = Some lu
     \<Longrightarrow> isCacheFresh parse dir now now = spec_isFresh parse dir now"
  by (simp add: isCacheFresh_readable_age spec_isFresh_def)

text \<open>
  When \<open>last_updated\<close> cannot be read, its time value is \<open>NaN\<close>, so is the age, and
  \<^verbatim>\<open>ageMs > MAX_CACHE_AGE_DAYS * 24 * 60 * 60 * 1000\<close> is false: the age guard lets the
  cache through and the deadline alone decides. \<^verbatim>\<open>new Date\<close> does not throw, so the
  \<^verbatim>\<open>catch\<close> branch that returns false is never taken.
\<close>

lemma isCacheFresh_unreadable_age:
  "last_updated_json dir = Some (Json (Some m)) \<Longrightarrow> parse (last_updated m) = None
     \<Longrightarrow> isCacheFresh parse dir now1 now2 \<longleftrightarrow>
           staged_intel_md dir \<noteq> None
           \<and> (case parse (next_update_after m) of Some nu \<Rightarrow> now2 < nu | None \<Rightarrow> False)"
  by (auto simp add: isCacheFresh_def readJsonFileOrDefault_def js_gt_def
        js_sub_def Let_def split: option.splits)

text \<open>
  C1. The claim: if any field of the metadata fails to parse, in particular an unparseable
  \<open>last_updated\<close>, then \<^verbatim>\<open>isCacheFresh\<close> returns false. The code does otherwise at the
  directory \<open>unreadable_age_dir\<close>, whose metadata has \<open>last_updated = ''not-a-date''\<close>
  and a deadline in 2099: evaluated at 2026-01-01 it answers fresh.
\<close>

theorem isCacheFresh_fresh_despite_unreadable_last_updated:
  "Date_parse_sample ''not-a-date'' = None
   \<and> last_updated_json unreadable_age_dir
       = Some (Json (Some \<lparr>last_updated = ''not-a-date'', topics_researched = [''topic''],
                            next_update_after = ''2099-01-01T00:00:00.000Z''\<rparr>))
   \<and> isCacheFresh Date_parse_sample unreadable_age_dir 1767225600000 1767225600000"
  by (simp add: isCacheFresh_def unreadable_age_dir_def readJsonFileOrDefault_def
        Date_parse_sample_def js_gt_def js_sub_def Let_def)

text \<open>
  C8. The claim: \<^verbatim>\<open>isCacheFresh\<close> returns true exactly when the metadata exists and
  parses, the content exists, the age \<open>now - last_updated\<close> is at most 60 days and \<open>now\<close>
  is before \<open>next_update_after\<close>, which is \<open>spec_isFresh\<close>. At the same directory the two
  differ: there is no age of at most 60 days, and the code answers fresh.
\<close>

theorem isCacheFresh_differs_from_spec_isFresh:
  "isCacheFresh Date_parse_sample unreadable_age_dir 1767225600000 1767225600000
     \<noteq> spec_isFresh Date_parse_sample unreadable_age_dir 1767225600000"
  by (simp add: isCacheFresh_def spec_isFresh_def unreadable_age_dir_def
        readJsonFileOrDefault_def Date_parse_sample_def js_gt_def js_sub_def Let_def)

section \<open>Interval and backoff\<close>

lemma half_ratio:
  "0 < t \<Longrightarrow> ((of_nat s :: rat) < of_nat t / 2) = (of_nat s / of_nat t < (1 / 2 :: rat))"
  by (simp add: field_simps)

lemma calculateNextUpdate_getIntervalDays:
  "calculateNextUpdate s t config (Some now) =
     new_Date (Some (now + getIntervalDays s t config * 86400000))"
  by (simp add: calculateNextUpdate_def getIntervalDays_def js_add_def Let_def mult.commute)

lemma calculateNextUpdate_in_range:
  "\<bar>now + getIntervalDays s t config * 86400000\<bar> \<le> 8640000000000000 \<Longrightarrow>
     calculateNextUpdate s t config (Some now) =
       Some (now + getIntervalDays s t config * 86400000)"
  by (simp add: calculateNextUpdate_getIntervalDays new_Date_def)

lemma calculateNextUpdate_out_of_range:
  "8640000000000000 < \<bar>now + getIntervalDays s t config * 86400000\<bar> \<Longrightarrow>
     calculateNextUpdate s t config (Some now) = None"
  by (simp add: calculateNextUpdate_getIntervalDays new_Date_def)

lemma getIntervalDays_cases:
  "getIntervalDays s t config =
     (if 0 < t \<and> of_nat s / of_nat t < (1 / 2 :: rat)
      then (case thinCacheIntervalDays config of None \<Rightarrow> 7 | Some d \<Rightarrow> d)
      else (case refreshIntervalDays config of None \<Rightarrow> 30 | Some d \<Rightarrow> d))"
proof (cases "0 < t")
  case True
  then show ?thesis
    by (simp add: getIntervalDays_def half_ratio Let_def
          CONFIG_DEFAULTS_refreshIntervalDays_def CONFIG_DEFAULTS_thinCacheIntervalDays_def
          split: option.splits)
next
  case False
  then show ?thesis
    by (simp add: getIntervalDays_def Let_def
          CONFIG_DEFAULTS_refreshIntervalDays_def CONFIG_DEFAULTS_thinCacheIntervalDays_def
          split: option.splits)
qed

text \<open>
  C3 as stated fails: \<^verbatim>\<open>calculateNextUpdate\<close> does not return \<open>now\<close> plus the interval for
  every configuration. With \<open>refreshIntervalDays = 100000000\<close> and all queries successful
  on 2026-01-01, \<open>now\<close> plus the interval is \<open>8641767225600000\<close> milliseconds, beyond the
  largest time value \<open>8640000000000000\<close>, and \<^verbatim>\<open>new Date\<close> of it is the invalid date.
\<close>

theorem calculateNextUpdate_invalid_date:
  "calculateNextUpdate 1 1 huge_config (Some 1767225600000) = None
   \<and> getIntervalDays 1 1 huge_config = 100000000
   \<and> 1767225600000 + 100000000 * 86400000 = (8641767225600000 :: int)
   \<and> (8640000000000000 :: int) < 8641767225600000"
  by (simp add: calculateNextUpdate_def getIntervalDays_def huge_config_def new_Date_def
        js_add_def Let_def)

text \<open>
  C3, amended. With \<open>ratio = successCount / totalTopics\<close>: \<^verbatim>\<open>getIntervalDays\<close> returns
  \<open>refreshIntervalDays\<close> (30 when the configuration omits it) if the ratio is at least one
  half, and \<open>thinCacheIntervalDays\<close> (7 when omitted) if it is below one half; a ratio of
  exactly one half (2 of 4) takes the full interval. \<^verbatim>\<open>calculateNextUpdate\<close> makes the same
  decision: it returns \<open>now\<close> plus that many days whenever this instant is a time value,
  that is at most \<open>8640000000000000\<close> milliseconds away from the epoch, and the invalid
  date otherwise; it is always \<^verbatim>\<open>new Date\<close> of \<open>now\<close> plus \<^verbatim>\<open>getIntervalDays\<close> days. A day
  is 86400000 milliseconds. With no topic at all JavaScript's ratio is \<open>Infinity\<close> or
  \<open>NaN\<close>, and the code takes the full interval.
\<close>

theorem calculateNextUpdate_policy:
  "let refreshDays = (case refreshIntervalDays config of None \<Rightarrow> 30 | Some d \<Rightarrow> d);
       thinDays = (case thinCacheIntervalDays config of None \<Rightarrow> 7 | Some d \<Rightarrow> d)
   in (0 < t \<and> (1 / 2 :: rat) \<le> of_nat s / of_nat t \<longrightarrow>
         getIntervalDays s t config = refreshDays
         \<and> (\<bar>now + refreshDays * 86400000\<bar> \<le> 8640000000000000 \<longrightarrow>
              calculateNextUpdate s t config (Some now) = Some (now + refreshDays * 86400000))
         \<and> (8640000000000000 < \<bar>now + refreshDays * 86400000\<bar> \<longrightarrow>
              calculateNextUpdate s t config (Some now) = None))
    \<and> (0 < t \<and> of_nat s / of_nat t < (1 / 2 :: rat) \<longrightarrow>
         getIntervalDays s t config = thinDays
         \<and> (\<bar>now + thinDays * 86400000\<bar> \<le> 8640000000000000 \<longrightarrow>
              calculateNextUpdate s t config (Some now) = Some (now + thinDays * 86400000))
         \<and> (8640000000000000 < \<bar>now + thinDays * 86400000\<bar> \<longrightarrow>
              calculateNextUpdate s t config (Some now) = None))
    \<and> (t = 0 \<longrightarrow>
         getIntervalDays s t config = refreshDays
         \<and> (\<bar>now + refreshDays * 86400000\<bar> \<le> 8640000000000000 \<longrightarrow>
              calculateNextUpdate s t config (Some now) = Some (now + refreshDays * 86400000)))
    \<and> (\<bar>now + getIntervalDays s t config * 86400000\<bar> \<le> 8640000000000000 \<longrightarrow>
         calculateNextUpdate s t config (Some now)
           = Some (now + getIntervalDays s t config * 86400000))
    \<and> (8640000000000000 < \<bar>now + getIntervalDays s t config * 86400000\<bar> \<longrightarrow>
         calculateNextUpdate s t config (Some now) = None)
    \<and> calculateNextUpdate s t config None = None
    \<and> getIntervalDays 2 4 config = refreshDays
    \<and> getIntervalDays 1 4 config = thinDays
    \<and> (\<bar>now + refreshDays * 86400000\<bar> \<le> 8640000000000000 \<longrightarrow>
         calculateNextUpdate 2 4 config (Some now) = Some (now + refreshDays * 86400000))
    \<and> (\<bar>now + thinDays * 86400000\<bar> \<le> 8640000000000000 \<longrightarrow>
         calculateNextUpdate 1 4 config (Some now) = Some (now + thinDays * 86400000))"
proof -
  have inv: "calculateNextUpdate s t config None = None"
    by (simp add: calculateNextUpdate_def js_add_def new_Date_def Let_def)
  have g24: "getIntervalDays 2 4 config
               = (case refreshIntervalDays config of None \<Rightarrow> 30 | Some d \<Rightarrow> d)"
    by (simp add: getIntervalDays_cases)
  have g14: "getIntervalDays 1 4 config
               = (case thinCacheIntervalDays config of None \<Rightarrow> 7 | Some d \<Rightarrow> d)"
    by (simp add: getIntervalDays_cases)
  have ge: "getIntervalDays s t config
              = (case refreshIntervalDays config of None \<Rightarrow> 30 | Some d \<Rightarrow> d)"
    if "0 < t" "(1 / 2 :: rat) \<le> of_nat s / of_nat t"
    using that by (simp add: getIntervalDays_cases)
  have lt: "getIntervalDays s t config
              = (case thinCacheIntervalDays config of None \<Rightarrow> 7 | Some d \<Rightarrow> d)"
    if "0 < t" "of_nat s / of_nat t < (1 / 2 :: rat)"
    using that by (simp add: getIntervalDays_cases)
  have z: "getIntervalDays s t config
             = (case refreshIntervalDays config of None \<Rightarrow> 30 | Some d \<Rightarrow> d)"
    if "t = 0"
    using that by (simp add: getIntervalDays_cases)
  have by_days:
    "(\<bar>now + d * 86400000\<bar> \<le> 8640000000000000 \<longrightarrow>
        calculateNextUpdate s' t' config (Some now) = Some (now + d * 86400000))
     \<and> (8640000000000000 < \<bar>now + d * 86400000\<bar> \<longrightarrow>
        calculateNextUpdate s' t' config (Some now) = None)"
    if "getIntervalDays s' t' config = d" for s' t' d
    using calculateNextUpdate_in_range [of now s' t' config]
      calculateNextUpdate_out_of_range [of now s' t' config]
    unfolding that by blast
  define refreshDays where
    "refreshDays = (case refreshIntervalDays config of None \<Rightarrow> (30::int) | Some d \<Rightarrow> d)"
  define thinDays where
    "thinDays = (case thinCacheIntervalDays config of None \<Rightarrow> (7::int) | Some d \<Rightarrow> d)"
  note facts = ge lt z g24 g14
  note f = facts [folded refreshDays_def thinDays_def]
  from f(1) by_days [of s t refreshDays]
  have A: "0 < t \<and> (1 / 2 :: rat) \<le> of_nat s / of_nat t \<longrightarrow>
         getIntervalDays s t config = refreshDays
         \<and> (\<bar>now + refreshDays * 86400000\<bar> \<le> 8640000000000000 \<longrightarrow>
              calculateNextUpdate s t config (Some now) = Some (now + refreshDays * 86400000))
         \<and> (8640000000000000 < \<bar>now + refreshDays * 86400000\<bar> \<longrightarrow>
              calculateNextUpdate s t config (Some now) = None)"
    by blast
  from f(2) by_days [of s t thinDays]
  have B: "0 < t \<and> of_nat s / of_nat t < (1 / 2 :: rat) \<longrightarrow>
         getIntervalDays s t config = thinDays
         \<and> (\<bar>now + thinDays * 86400000\<bar> \<le> 8640000000000000 \<longrightarrow>
              calculateNextUpdate s t config (Some now) = Some (now + thinDays * 86400000))
         \<and> (8640000000000000 < \<bar>now + thinDays * 86400000\<bar> \<longrightarrow>
              calculateNextUpdate s t config (Some now) = None)"
    by blast
  from f(3) by_days [of s t refreshDays]
  have C: "t = 0 \<longrightarrow>
         getIntervalDays s t config = refreshDays
         \<and> (\<bar>now + refreshDays * 86400000\<bar> \<le> 8640000000000000 \<longrightarrow>
              calculateNextUpdate s t config (Some now) = Some (now + refreshDays * 86400000))"
    by blast
  from by_days [of s t "getIntervalDays s t config"]
  have D: "(\<bar>now + getIntervalDays s t config * 86400000\<bar> \<le> 8640000000000000 \<longrightarrow>
         calculateNextUpdate s t config (Some now)
           = Some (now + getIntervalDays s t config * 86400000))
    \<and> (8640000000000000 < \<bar>now + getIntervalDays s t config * 86400000\<bar> \<longrightarrow>
         calculateNextUpdate s t config (Some now) = None)"
    by blast
  from f(4) by_days [of 2 4 refreshDays]
  have E: "\<bar>now + refreshDays * 86400000\<bar> \<le> 8640000000000000 \<longrightarrow>
         calculateNextUpdate 2 4 config (Some now) = Some (now + refreshDays * 86400000)"
    by blast
  from f(5) by_days [of 1 4 thinDays]
  have F: "\<bar>now + thinDays * 86400000\<bar> \<le> 8640000000000000 \<longrightarrow>
         calculateNextUpdate 1 4 config (Some now) = Some (now + thinDays * 86400000)"
    by blast
  from A B C D inv f(4) f(5) E F show ?thesis
    unfolding Let_def refreshDays_def [symmetric] thinDays_def [symmetric]
    by blast
qed

text \<open>
  C3 amended, at the inputs of \<^verbatim>\<open>cache.test.ts\<close>: from 2026-01-01, 3 of 4 gives 2026-01-31,
  1 of 4 gives 2026-01-08; and with the interval of 100000000 days the instant is out of
  range and the date invalid.
\<close>

theorem calculateNextUpdate_policy_witness:
  "(1 / 2 :: rat) \<le> of_nat (3::nat) / of_nat (4::nat)
   \<and> \<bar>1767225600000 + 30 * 86400000\<bar> \<le> (8640000000000000 :: int)
   \<and> calculateNextUpdate 3 4 test_config (Some 1767225600000) = Some 1769817600000
   \<and> getIntervalDays 3 4 test_config = 30
   \<and> of_nat (1::nat) / of_nat (4::nat) < (1 / 2 :: rat)
   \<and> calculateNextUpdate 1 4 test_config (Some 1767225600000) = Some 1767830400000
   \<and> getIntervalDays 1 4 test_config = 7
   \<and> calculateNextUpdate 0 0 test_config (Some 1767225600000) = Some 1769817600000
   \<and> (8640000000000000 :: int) < \<bar>1767225600000 + 100000000 * 86400000\<bar>
   \<and> calculateNextUpdate 4 4 huge_config (Some 1767225600000) = None"
  using calculateNextUpdate_policy [where s = 3 and t = 4 and config = test_config
                                      and now = 1767225600000]
        calculateNextUpdate_policy [where s = 1 and t = 4 and config = test_config
                                      and now = 1767225600000]
        calculateNextUpdate_policy [where s = 0 and t = 0 and config = test_config
                                      and now = 1767225600000]
        calculateNextUpdate_policy [where s = 4 and t = 4 and config = huge_config
                                      and now = 1767225600000]
  by (simp add: Let_def test_config_def huge_config_def)

text \<open>
  C4. The metadata that \<^verbatim>\<open>buildBackoffMetadata\<close> returns has \<open>next_update_after\<close> equal
  to the time of the call plus 4 hours, whatever the configuration (the function does not
  receive it), and the topic list it was given; its \<open>last_updated\<close> is that of the
  readable prior metadata when there is one, and the current time when there is no
  metadata file (or when the file cannot be parsed or holds \<^verbatim>\<open>null\<close>).
\<close>

theorem buildBackoffMetadata_fields:
  "let m = buildBackoffMetadata toISO dir tps new_date date_now
   in next_update_after m = toISO (date_now + 4 * 60 * 60 * 1000)
    \<and> topics_researched m = tps
    \<and> (\<forall>prior. last_updated_json dir = Some (Json (Some prior)) \<longrightarrow>
          last_updated m = last_updated prior)
    \<and> (last_updated_json dir = None \<longrightarrow> last_updated m = toISO new_date)
    \<and> (last_updated_json dir = Some Unparsable \<or> last_updated_json dir = Some (Json None) \<longrightarrow>
          last_updated m = toISO new_date)"
  by (auto simp add: buildBackoffMetadata_def readJsonFileOrDefault_def BACKOFF_HOURS_def Let_def)

text \<open>
  C4, at concrete inputs on 2026-01-01: the December directory keeps its
  \<open>last_updated\<close>; the empty directory and one with corrupt metadata get the current
  time; the deadline is 04:00 of the same day.
\<close>

theorem buildBackoffMetadata_fields_witness:
  "last_updated_json december_dir
     = Some (Json (Some \<lparr>last_updated = ''2025-12-01T00:00:00.000Z'',
                          topics_researched = [''old''],
                          next_update_after = ''2025-12-31T00:00:00.000Z''\<rparr>))
   \<and> buildBackoffMetadata toISOString_sample december_dir [''new-topic'']
         1767225600000 1767225600000
       = \<lparr>last_updated = ''2025-12-01T00:00:00.000Z'', topics_researched = [''new-topic''],
          next_update_after = ''2026-01-01T04:00:00.000Z''\<rparr>
   \<and> last_updated_json empty_dir = None
   \<and> buildBackoffMetadata toISOString_sample empty_dir [''topic'']
         1767225600000 1767225600000
       = \<lparr>last_updated = ''2026-01-01T00:00:00.000Z'', topics_researched = [''topic''],
          next_update_after = ''2026-01-01T04:00:00.000Z''\<rparr>
   \<and> last_updated_json (empty_dir\<lparr>last_updated_json := Some Unparsable\<rparr>) = Some Unparsable
   \<and> last_updated (buildBackoffMetadata toISOString_sample
         (empty_dir\<lparr>last_updated_json := Some Unparsable\<rparr>) [''topic'']
         1767225600000 1767225600000) = ''2026-01-01T00:00:00.000Z''"
  using buildBackoffMetadata_fields
          [where toISO = toISOString_sample and dir = december_dir and tps = "[''new-topic'']"
             and new_date = 1767225600000 and date_now = 1767225600000]
        buildBackoffMetadata_fields
          [where toISO = toISOString_sample and dir = empty_dir and tps = "[''topic'']"
             and new_date = 1767225600000 and date_now = 1767225600000]
        buildBackoffMetadata_fields
          [where toISO = toISOString_sample
             and dir = "empty_dir\<lparr>last_updated_json := Some Unparsable\<rparr>"
             and tps = "[''topic'']"
             and new_date = 1767225600000 and date_now = 1767225600000]
  by (simp add: Let_def december_dir_def empty_dir_def toISOString_sample_def
        buildBackoffMetadata_def readJsonFileOrDefault_def BACKOFF_HOURS_def)


section \<open>The review ledger\<close>

lemma executeReview_guards:
  "cacheDir options = [] \<or> hashes options = []
     \<or> decision options \<notin> {''accepted'', ''rejected''}
   \<Longrightarrow> snd (executeReview toISO options dir t) = dir"
  by (auto simp add: executeReview_def)

lemma executeReview_written:
  assumes "cacheDir options \<noteq> []" "hashes options \<noteq> []"
    "decision options \<in> {''accepted'', ''rejected''}"
  shows "snd (executeReview toISO options dir t) =
           dir\<lparr>reviewed_hashes_json := Some (Json
             ((readJsonFileOrDefault (reviewed_hashes_json dir) \<lparr>version = 1, reviewed = []\<rparr>)
                \<lparr>reviewed :=
                   filter (\<lambda>r. entry_hash r \<notin> set (hashes options)) (ledger_of dir)
                   @ map (\<lambda>h. \<lparr>entry_hash = h, entry_decision = decision options,
                                entry_date = toISO t\<rparr>) (hashes options)\<rparr>))\<rparr>"
  using assms
  by (auto simp add: executeReview_def ledger_of_def Let_def image_image)

text \<open>
  C2 as stated fails: the ledger can hold two entries for one fingerprint after a review.
  A batch that names the fingerprint \<open>a\<close> twice leaves two entries for \<open>a\<close> in a ledger
  that was empty; and two prior entries for \<open>b\<close> both survive a review of \<open>a\<close>. The
  code removes prior entries of the batch's fingerprints and appends one entry for each
  element of the batch; it never compares the elements of the batch with each other, nor
  the entries it keeps.
\<close>

theorem executeReview_duplicates_survive:
  "\<not> spec_one_entry_per_fingerprint
        (ledger_of (snd (executeReview toISOString_sample
           (review_options [''a'', ''a''] ''accepted'') empty_dir 1767225600000)))
   \<and> spec_one_entry_per_fingerprint (ledger_of empty_dir)
   \<and> \<not> spec_one_entry_per_fingerprint
        (ledger_of (snd (executeReview toISOString_sample
           (review_options [''a''] ''accepted'') twice_b_dir 1767225600000)))"
  by (simp add: executeReview_def review_options_def ledger_of_def empty_dir_def twice_b_dir_def
        readJsonFileOrDefault_def spec_one_entry_per_fingerprint_def Let_def)

text \<open>
  C2, amended. A review that passes its three guards (a cache directory, a non-empty
  batch, a decision that is \<open>accepted\<close> or \<open>rejected\<close>) writes a ledger that consists of
  the prior entries whose fingerprint is not in the batch, unchanged and in their order,
  followed by one new entry, with the decision and the time of the review, for each
  element of the batch; the entries outside the batch are therefore exactly the prior
  ones, and the entries of the batch's fingerprints are exactly the new ones. If the
  batch names no fingerprint twice and the prior ledger had at most one entry for each
  fingerprint, so has the new ledger. A review that fails a guard leaves the directory
  as it is.
\<close>

theorem executeReview_replaces_batch:
  "let batch = hashes options;
       prior = ledger_of dir;
       out = snd (executeReview toISO options dir t);
       after = ledger_of out;
       fresh = (\<lambda>h. \<lparr>entry_hash = h, entry_decision = decision options, entry_date = toISO t\<rparr>)
   in (cacheDir options = [] \<or> batch = [] \<or> decision options \<notin> {''accepted'', ''rejected''}
         \<longrightarrow> out = dir)
    \<and> (cacheDir options \<noteq> [] \<and> batch \<noteq> [] \<and> decision options \<in> {''accepted'', ''rejected''}
         \<longrightarrow> out = dir\<lparr>reviewed_hashes_json := Some (Json
                     ((readJsonFileOrDefault (reviewed_hashes_json dir)
                         \<lparr>version = 1, reviewed = []\<rparr>)
                        \<lparr>reviewed := filter (\<lambda>r. entry_hash r \<notin> set batch) prior
                                      @ map fresh batch\<rparr>))\<rparr>
           \<and> after = filter (\<lambda>r. entry_hash r \<notin> set batch) prior @ map fresh batch
           \<and> filter (\<lambda>r. entry_hash r \<notin> set batch) after
               = filter (\<lambda>r. entry_hash r \<notin> set batch) prior
           \<and> filter (\<lambda>r. entry_hash r \<in> set batch) after = map fresh batch
           \<and> (distinct batch \<and> spec_one_entry_per_fingerprint prior
                 \<longrightarrow> spec_one_entry_per_fingerprint after))"
proof -
  define batch where "batch = hashes options"
  define prior where "prior = ledger_of dir"
  define fresh where
    "fresh = (\<lambda>h. \<lparr>entry_hash = h, entry_decision = decision options, entry_date = toISO t\<rparr>)"
  define out where "out = snd (executeReview toISO options dir t)"
  define after where "after = ledger_of out"
  have hf: "entry_hash (fresh h) = h" for h
    by (simp add: fresh_def)
  have hfresh: "map entry_hash (map fresh batch) = batch"
    by (simp add: hf comp_def)
  have keep: "filter (\<lambda>r. entry_hash r \<notin> set batch) (map fresh batch) = []"
    by (auto simp add: filter_empty_conv fresh_def)
  have take: "filter (\<lambda>r. entry_hash r \<in> set batch) (map fresh batch) = map fresh batch"
    by (auto simp add: filter_id_conv fresh_def)
  have drop: "filter (\<lambda>r. entry_hash r \<in> set batch)
                (filter (\<lambda>r. entry_hash r \<notin> set batch) prior) = []"
    by (auto simp add: filter_empty_conv)
  have main: "out = dir\<lparr>reviewed_hashes_json := Some (Json
                     ((readJsonFileOrDefault (reviewed_hashes_json dir)
                         \<lparr>version = 1, reviewed = []\<rparr>)
                        \<lparr>reviewed := filter (\<lambda>r. entry_hash r \<notin> set batch) prior
                                      @ map fresh batch\<rparr>))\<rparr>
      \<and> after = filter (\<lambda>r. entry_hash r \<notin> set batch) prior @ map fresh batch
      \<and> filter (\<lambda>r. entry_hash r \<notin> set batch) after
          = filter (\<lambda>r. entry_hash r \<notin> set batch) prior
      \<and> filter (\<lambda>r. entry_hash r \<in> set batch) after = map fresh batch
      \<and> (distinct batch \<and> spec_one_entry_per_fingerprint prior \<longrightarrow> spec_one_entry_per_fingerprint after)"
    if ok: "cacheDir options \<noteq> []" "batch \<noteq> []"
      "decision options \<in> {''accepted'', ''rejected''}"
  proof -
    have w: "out = dir\<lparr>reviewed_hashes_json := Some (Json
                ((readJsonFileOrDefault (reviewed_hashes_json dir) \<lparr>version = 1, reviewed = []\<rparr>)
                   \<lparr>reviewed := filter (\<lambda>r. entry_hash r \<notin> set batch) prior @ map fresh batch\<rparr>))\<rparr>"
      using executeReview_written [of options toISO dir t] ok
      by (simp add: out_def batch_def prior_def fresh_def)
    have eq: "after = filter (\<lambda>r. entry_hash r \<notin> set batch) prior @ map fresh batch"
      unfolding after_def w by (simp add: ledger_of_def readJsonFileOrDefault_def)
    have d: "spec_one_entry_per_fingerprint after"
      if "distinct batch" "spec_one_entry_per_fingerprint prior"
    proof -
      have "distinct (map entry_hash (filter (\<lambda>r. entry_hash r \<notin> set batch) prior))"
        using that(2) by (simp add: spec_one_entry_per_fingerprint_def distinct_map_filter)
      moreover have "distinct (map entry_hash (map fresh batch))"
        using that(1) by (simp only: hfresh)
      moreover have "set (map entry_hash (filter (\<lambda>r. entry_hash r \<notin> set batch) prior))
                       \<inter> set (map entry_hash (map fresh batch)) = {}"
        unfolding hfresh by auto
      ultimately show ?thesis
        unfolding spec_one_entry_per_fingerprint_def eq map_append distinct_append by blast
    qed
    from w eq keep take drop d show ?thesis by simp
  qed
  have guards: "out = dir"
    if "cacheDir options = [] \<or> batch = [] \<or> decision options \<notin> {''accepted'', ''rejected''}"
    using that executeReview_guards [of options toISO dir t] by (simp add: batch_def out_def)
  show ?thesis
    unfolding Let_def batch_def [symmetric] prior_def [symmetric] out_def [symmetric]
      after_def [symmetric] fresh_def [symmetric]
    using main guards by blast
qed

text \<open>
  C2 amended, at concrete inputs: a ledger with entries for \<open>a\<close> and \<open>b\<close>, reviewed
  with the batch \<open>a, c\<close>; and an empty batch, which changes nothing.
\<close>

theorem executeReview_replaces_batch_witness:
  "cacheDir (review_options [''a'', ''c''] ''accepted'') \<noteq> []
   \<and> hashes (review_options [''a'', ''c''] ''accepted'') \<noteq> []
   \<and> decision (review_options [''a'', ''c''] ''accepted'') \<in> {''accepted'', ''rejected''}
   \<and> distinct (hashes (review_options [''a'', ''c''] ''accepted''))
   \<and> spec_one_entry_per_fingerprint (ledger_of reviewed_b_dir)
   \<and> spec_one_entry_per_fingerprint
        (ledger_of (snd (executeReview toISOString_sample
           (review_options [''a'', ''c''] ''accepted'') reviewed_b_dir 1767225600000)))
   \<and> snd (executeReview toISOString_sample
           (review_options [''a'', ''c''] ''accepted'') reviewed_b_dir 1767225600000)
       = empty_dir\<lparr>reviewed_hashes_json := Some (Json
           \<lparr>version = 1,
            reviewed = [\<lparr>entry_hash = ''b'', entry_decision = ''accepted'',
                         entry_date = ''2025-12-01T00:00:00.000Z''\<rparr>,
                        \<lparr>entry_hash = ''a'', entry_decision = ''accepted'',
                         entry_date = ''2026-01-01T00:00:00.000Z''\<rparr>,
                        \<lparr>entry_hash = ''c'', entry_decision = ''accepted'',
                         entry_date = ''2026-01-01T00:00:00.000Z''\<rparr>]\<rparr>)\<rparr>
   \<and> hashes (review_options [] ''accepted'') = []
   \<and> snd (executeReview toISOString_sample (review_options [] ''accepted'') reviewed_b_dir
            1767225600000) = reviewed_b_dir"
  using executeReview_replaces_batch
          [where toISO = toISOString_sample
             and options = "review_options [''a'', ''c''] ''accepted''"
             and dir = reviewed_b_dir and t = 1767225600000]
        executeReview_replaces_batch
          [where toISO = toISOString_sample
             and options = "review_options [] ''accepted''"
             and dir = reviewed_b_dir and t = 1767225600000]
  by (simp add: Let_def review_options_def reviewed_b_dir_def empty_dir_def ledger_of_def
        readJsonFileOrDefault_def spec_one_entry_per_fingerprint_def toISOString_sample_def
        executeReview_def)

section \<open>The invariant of the metadata\<close>

lemma executeRefresh_guards:
  "configPath options = [] \<or> cacheDir options = [] \<or> config_file run = None
     \<or> (\<exists>c. config_file run = Some c \<and> topics c = [])
     \<or> (\<not> force options \<and> isCacheFresh parse dir (fresh_now1 run) (fresh_now2 run))
   \<Longrightarrow> snd (executeRefresh parse toISO options run dir) = dir"
  by (auto simp add: executeRefresh_def split: option.splits)

lemma executeRefresh_success_path:
  assumes "configPath options \<noteq> []" "cacheDir options \<noteq> []" "config_file run = Some config"
    "topics config \<noteq> []"
    "force options \<or> \<not> isCacheFresh parse dir (fresh_now1 run) (fresh_now2 run)"
    "0 < length (filter (\<lambda>r. case r of None \<Rightarrow> False | Some rep \<Rightarrow> hasData rep) (gathered run))"
    "calculateNextUpdate
       (length (filter (\<lambda>r. case r of None \<Rightarrow> False | Some rep \<Rightarrow> hasData rep) (gathered run)))
       (length (topics config)) config (Some (refresh_new_date run)) = Some next_time"
  shows "executeRefresh parse toISO options run dir =
           (Refreshed,
            writeCacheFiles dir (markdown_out run)
              \<lparr>last_updated = toISO (refresh_new_date run),
               topics_researched = topics config,
               next_update_after = toISO next_time\<rparr>
              (gathered run))"
  using assms by (auto simp add: executeRefresh_def Let_def)

lemma executeRefresh_invalid_deadline:
  assumes "configPath options \<noteq> []" "cacheDir options \<noteq> []" "config_file run = Some config"
    "topics config \<noteq> []"
    "force options \<or> \<not> isCacheFresh parse dir (fresh_now1 run) (fresh_now2 run)"
    "0 < length (filter (\<lambda>r. case r of None \<Rightarrow> False | Some rep \<Rightarrow> hasData rep) (gathered run))"
    "calculateNextUpdate
       (length (filter (\<lambda>r. case r of None \<Rightarrow> False | Some rep \<Rightarrow> hasData rep) (gathered run)))
       (length (topics config)) config (Some (refresh_new_date run)) = None"
  shows "executeRefresh parse toISO options run dir = (Failed, dir)"
  using assms by (auto simp add: executeRefresh_def Let_def)

lemma executeRefresh_backoff_path:
  assumes "configPath options \<noteq> []" "cacheDir options \<noteq> []" "config_file run = Some config"
    "topics config \<noteq> []"
    "force options \<or> \<not> isCacheFresh parse dir (fresh_now1 run) (fresh_now2 run)"
    "length (filter (\<lambda>r. case r of None \<Rightarrow> False | Some rep \<Rightarrow> hasData rep) (gathered run)) = 0"
  shows "snd (executeRefresh parse toISO options run dir) =
           writeBackoffMetadata dir
             (buildBackoffMetadata toISO dir (topics config)
                (backoff_new_date run) (backoff_date_now run))"
  using assms by (auto simp add: executeRefresh_def Let_def)

text \<open>
  C9 as stated fails. On the backoff path the prior \<open>last_updated\<close> is kept as it is and
  the deadline is the current time plus 4 hours: from prior metadata stamped 2099 (which
  itself satisfies the invariant), a forced refresh on 2026-01-01 whose queries all fail
  writes \<open>last_updated\<close> in 2099 and \<open>next_update_after\<close> on 2026-01-01. On the
  successful path the deadline is the current time plus the configured interval, which
  nothing keeps from being negative: with \<open>refreshIntervalDays = -1\<close> the deadline is the
  day before \<open>last_updated\<close>.
\<close>

theorem executeRefresh_writes_unordered_metadata:
  "spec_metadata_ordered Date_parse_sample
     \<lparr>last_updated = ''2099-01-01T00:00:00.000Z'', topics_researched = [''a''],
      next_update_after = ''2099-01-01T00:00:00.000Z''\<rparr>
   \<and> stored_metadata
         (snd (executeRefresh Date_parse_sample toISOString_sample (refresh_options True)
                 (run_at_2026 test_config [None, None, None, None]) future_dir))
       = Some \<lparr>last_updated = ''2099-01-01T00:00:00.000Z'',
               topics_researched = [''a'', ''b'', ''c'', ''d''],
               next_update_after = ''2026-01-01T04:00:00.000Z''\<rparr>
   \<and> \<not> spec_metadata_ordered Date_parse_sample
         \<lparr>last_updated = ''2099-01-01T00:00:00.000Z'',
          topics_researched = [''a'', ''b'', ''c'', ''d''],
          next_update_after = ''2026-01-01T04:00:00.000Z''\<rparr>
   \<and> stored_metadata
         (snd (executeRefresh Date_parse_sample toISOString_sample (refresh_options False)
                 (run_at_2026 negative_config [Some (reddit_only ''a'' boundary_item)])
                 empty_dir))
       = Some \<lparr>last_updated = ''2026-01-01T00:00:00.000Z'', topics_researched = [''a''],
               next_update_after = ''2025-12-31T00:00:00.000Z''\<rparr>
   \<and> \<not> spec_metadata_ordered Date_parse_sample
         \<lparr>last_updated = ''2026-01-01T00:00:00.000Z'', topics_researched = [''a''],
          next_update_after = ''2025-12-31T00:00:00.000Z''\<rparr>"
  by (simp add: executeRefresh_def refresh_options_def run_at_2026_def future_dir_def
        empty_dir_def test_config_def negative_config_def stored_metadata_def
        spec_metadata_ordered_def Date_parse_sample_def toISOString_sample_def
        buildBackoffMetadata_def writeBackoffMetadata_def writeCacheFiles_def
        calculateNextUpdate_def new_Date_def js_add_def hasExistingCache_def hasData_def
        reddit_only_def readJsonFileOrDefault_def BACKOFF_HOURS_def isCacheFresh_def Let_def)

text \<open>
  C9, amended. A \<^verbatim>\<open>refresh\<close> run that passes its guards (paths given, configuration
  read, topics not empty, cache stale or refresh forced) writes metadata. When some query
  succeeded, it is \<open>last_updated = now\<close> with the deadline of \<^verbatim>\<open>calculateNextUpdate\<close>,
  and \<open>next_update_after \<ge> last_updated\<close> holds provided the interval chosen is not
  negative and the deadline is a valid \<^verbatim>\<open>Date\<close> (within 8640000000000000 ms of the epoch).
  When the deadline is not a valid \<^verbatim>\<open>Date\<close>, printing it throws, the run reports
  \<^verbatim>\<open>failed\<close> and nothing is written. When every query failed, it is the backoff metadata, and the invariant holds
  provided the prior \<open>last_updated\<close>, when there is readable prior metadata, reads as a
  time not later than the current time plus 4 hours, or, when there is none, provided the
  clock reading of the fallback is not later than that. In both cases the timestamps
  written are assumed to read back as the instants they print. A run stopped by a guard
  writes nothing.
\<close>

theorem executeRefresh_metadata_ordered:
  "let sc = length (filter (\<lambda>r. case r of None \<Rightarrow> False | Some rep \<Rightarrow> hasData rep)
                      (gathered run));
       out = executeRefresh parse toISO options run dir;
       proceeds = (configPath options \<noteq> [] \<and> cacheDir options \<noteq> []
                   \<and> config_file run = Some config \<and> topics config \<noteq> []
                   \<and> (force options
                        \<or> \<not> isCacheFresh parse dir (fresh_now1 run) (fresh_now2 run)));
       now = refresh_new_date run;
       nextUpdate = now + getIntervalDays sc (length (topics config)) config * 86400000;
       deadline = backoff_date_now run + 4 * 60 * 60 * 1000
   in (proceeds \<and> 0 < sc \<and> 0 \<le> getIntervalDays sc (length (topics config)) config
       \<and> \<bar>nextUpdate\<bar> \<le> 8640000000000000
       \<and> parse (toISO now) = Some now \<and> parse (toISO nextUpdate) = Some nextUpdate
         \<longrightarrow> fst out = Refreshed
           \<and> (\<exists>m. stored_metadata (snd out) = Some m \<and> last_updated m = toISO now
                  \<and> next_update_after m = toISO nextUpdate \<and> spec_metadata_ordered parse m))
    \<and> (proceeds \<and> 0 < sc \<and> 8640000000000000 < \<bar>nextUpdate\<bar>
         \<longrightarrow> fst out = Failed \<and> snd out = dir)
    \<and> (proceeds \<and> sc = 0 \<and> parse (toISO deadline) = Some deadline
       \<and> (case stored_metadata dir of
             Some prior \<Rightarrow>
               (case parse (last_updated prior) of Some lu \<Rightarrow> lu \<le> deadline | None \<Rightarrow> False)
           | None \<Rightarrow>
               parse (toISO (backoff_new_date run)) = Some (backoff_new_date run)
               \<and> backoff_new_date run \<le> deadline)
         \<longrightarrow> (\<exists>m. stored_metadata (snd out) = Some m \<and> next_update_after m = toISO deadline
                  \<and> spec_metadata_ordered parse m))
    \<and> (configPath options = [] \<or> cacheDir options = [] \<or> config_file run = None
        \<or> (\<exists>c. config_file run = Some c \<and> topics c = [])
        \<or> (\<not> force options \<and> isCacheFresh parse dir (fresh_now1 run) (fresh_now2 run))
         \<longrightarrow> snd out = dir)"
proof -
  define sc where
    "sc = length (filter (\<lambda>r. case r of None \<Rightarrow> False | Some rep \<Rightarrow> hasData rep) (gathered run))"
  define out where "out = executeRefresh parse toISO options run dir"
  define proceeds where
    "proceeds \<longleftrightarrow> configPath options \<noteq> [] \<and> cacheDir options \<noteq> []
        \<and> config_file run = Some config \<and> topics config \<noteq> []
        \<and> (force options \<or> \<not> isCacheFresh parse dir (fresh_now1 run) (fresh_now2 run))"
  define now where "now = refresh_new_date run"
  define nextUpdate where
    "nextUpdate = now + getIntervalDays sc (length (topics config)) config * 86400000"
  define deadline where "deadline = backoff_date_now run + 4 * 60 * 60 * 1000"
  have A: "fst out = Refreshed
           \<and> (\<exists>m. stored_metadata (snd out) = Some m \<and> last_updated m = toISO now
                  \<and> next_update_after m = toISO nextUpdate \<and> spec_metadata_ordered parse m)"
    if p: proceeds and pos: "0 < sc"
      and iv: "0 \<le> getIntervalDays sc (length (topics config)) config"
      and rg: "\<bar>nextUpdate\<bar> \<le> 8640000000000000"
      and r1: "parse (toISO now) = Some now" and r2: "parse (toISO nextUpdate) = Some nextUpdate"
  proof -
    have valid: "calculateNextUpdate sc (length (topics config)) config (Some now)
                   = Some nextUpdate"
      using rg calculateNextUpdate_in_range [of now sc "length (topics config)" config]
      by (simp add: nextUpdate_def)
    have eq: "out = (Refreshed,
                writeCacheFiles dir (markdown_out run)
                  \<lparr>last_updated = toISO now, topics_researched = topics config,
                   next_update_after = toISO nextUpdate\<rparr> (gathered run))"
      using executeRefresh_success_path [of options run config parse dir nextUpdate toISO]
        p pos valid
      by (simp add: out_def proceeds_def sc_def now_def)
    have le: "now \<le> nextUpdate"
      using iv by (simp add: nextUpdate_def)
    show ?thesis
      using r1 r2 le
      by (simp add: eq stored_metadata_def writeCacheFiles_def readJsonFileOrDefault_def
            spec_metadata_ordered_def)
  qed
  have D: "fst out = Failed \<and> snd out = dir"
    if p: proceeds and pos: "0 < sc" and rg: "8640000000000000 < \<bar>nextUpdate\<bar>"
  proof -
    have invalid: "calculateNextUpdate sc (length (topics config)) config (Some now) = None"
      using rg calculateNextUpdate_out_of_range [of now sc "length (topics config)" config]
      by (simp add: nextUpdate_def)
    show ?thesis
      using executeRefresh_invalid_deadline [of options run config parse dir toISO]
        p pos invalid
      by (simp add: out_def proceeds_def sc_def now_def)
  qed
  have B: "\<exists>m. stored_metadata (snd out) = Some m \<and> next_update_after m = toISO deadline
               \<and> spec_metadata_ordered parse m"
    if p: proceeds and z: "sc = 0" and r: "parse (toISO deadline) = Some deadline"
      and prior: "case stored_metadata dir of
                    Some prior \<Rightarrow>
                      (case parse (last_updated prior) of Some lu \<Rightarrow> lu \<le> deadline
                       | None \<Rightarrow> False)
                  | None \<Rightarrow>
                      parse (toISO (backoff_new_date run)) = Some (backoff_new_date run)
                      \<and> backoff_new_date run \<le> deadline"
  proof -
    have eq: "snd out = writeBackoffMetadata dir
                (buildBackoffMetadata toISO dir (topics config)
                   (backoff_new_date run) (backoff_date_now run))"
      using executeRefresh_backoff_path [of options run config parse dir toISO] p z
      by (simp add: out_def proceeds_def sc_def)
    show ?thesis
      using r prior
      by (auto simp add: eq stored_metadata_def writeBackoffMetadata_def
            buildBackoffMetadata_def readJsonFileOrDefault_def spec_metadata_ordered_def
            deadline_def BACKOFF_HOURS_def Let_def split: option.splits)
  qed
  have C: "snd out = dir"
    if "configPath options = [] \<or> cacheDir options = [] \<or> config_file run = None
        \<or> (\<exists>c. config_file run = Some c \<and> topics c = [])
        \<or> (\<not> force options \<and> isCacheFresh parse dir (fresh_now1 run) (fresh_now2 run))"
    using that executeRefresh_guards [of options run parse dir toISO] by (simp add: out_def)
  show ?thesis
    unfolding Let_def sc_def [symmetric] out_def [symmetric] now_def [symmetric]
      nextUpdate_def [symmetric] deadline_def [symmetric]
    using A B C D unfolding proceeds_def by blast
qed

text \<open>
  C9 amended, at concrete inputs on 2026-01-01: 2 of 4 queries succeed from an empty
  directory; all queries fail from the December directory and from the empty one; and a
  run without a configuration path, which leaves the directory as it is.
\<close>

theorem executeRefresh_metadata_ordered_witness:
  "fst (executeRefresh Date_parse_sample toISOString_sample (refresh_options False)
          (run_at_2026 test_config
             [Some (reddit_only ''a'' boundary_item), Some (reddit_only ''b'' boundary_item),
              None, None]) empty_dir) = Refreshed
   \<and> stored_metadata
         (snd (executeRefresh Date_parse_sample toISOString_sample (refresh_options False)
                 (run_at_2026 test_config
                    [Some (reddit_only ''a'' boundary_item),
                     Some (reddit_only ''b'' boundary_item), None, None]) empty_dir))
       = Some \<lparr>last_updated = ''2026-01-01T00:00:00.000Z'',
               topics_researched = [''a'', ''b'', ''c'', ''d''],
               next_update_after = ''2026-01-31T00:00:00.000Z''\<rparr>
   \<and> spec_metadata_ordered Date_parse_sample
         \<lparr>last_updated = ''2026-01-01T00:00:00.000Z'',
          topics_researched = [''a'', ''b'', ''c'', ''d''],
          next_update_after = ''2026-01-31T00:00:00.000Z''\<rparr>
   \<and> stored_metadata
         (snd (executeRefresh Date_parse_sample toISOString_sample (refresh_options False)
                 (run_at_2026 test_config [None, None, None, None]) december_dir))
       = Some \<lparr>last_updated = ''2025-12-01T00:00:00.000Z'',
               topics_researched = [''a'', ''b'', ''c'', ''d''],
               next_update_after = ''2026-01-01T04:00:00.000Z''\<rparr>
   \<and> spec_metadata_ordered Date_parse_sample
         \<lparr>last_updated = ''2025-12-01T00:00:00.000Z'',
          topics_researched = [''a'', ''b'', ''c'', ''d''],
          next_update_after = ''2026-01-01T04:00:00.000Z''\<rparr>
   \<and> stored_metadata
         (snd (executeRefresh Date_parse_sample toISOString_sample (refresh_options False)
                 (run_at_2026 test_config [None, None, None, None]) empty_dir))
       = Some \<lparr>last_updated = ''2026-01-01T00:00:00.000Z'',
               topics_researched = [''a'', ''b'', ''c'', ''d''],
               next_update_after = ''2026-01-01T04:00:00.000Z''\<rparr>
   \<and> spec_metadata_ordered Date_parse_sample
         \<lparr>last_updated = ''2026-01-01T00:00:00.000Z'',
          topics_researched = [''a'', ''b'', ''c'', ''d''],
          next_update_after = ''2026-01-01T04:00:00.000Z''\<rparr>
   \<and> snd (executeRefresh Date_parse_sample toISOString_sample
            ((refresh_options False)\<lparr>configPath := []\<rparr>)
            (run_at_2026 test_config [None, None, None, None]) december_dir) = december_dir
   \<and> executeRefresh Date_parse_sample toISOString_sample (refresh_options False)
         (run_at_2026 huge_config [Some (reddit_only ''a'' boundary_item)]) december_dir
       = (Failed, december_dir)"
  using executeRefresh_metadata_ordered
          [where parse = Date_parse_sample and toISO = toISOString_sample
             and options = "refresh_options False" and config = test_config
             and run = "run_at_2026 test_config
                          [Some (reddit_only ''a'' boundary_item),
                           Some (reddit_only ''b'' boundary_item), None, None]"
             and dir = empty_dir]
        executeRefresh_metadata_ordered
          [where parse = Date_parse_sample and toISO = toISOString_sample
             and options = "refresh_options False" and config = test_config
             and run = "run_at_2026 test_config [None, None, None, None]"
             and dir = december_dir]
        executeRefresh_metadata_ordered
          [where parse = Date_parse_sample and toISO = toISOString_sample
             and options = "refresh_options False" and config = test_config
             and run = "run_at_2026 test_config [None, None, None, None]"
             and dir = empty_dir]
        executeRefresh_metadata_ordered
          [where parse = Date_parse_sample and toISO = toISOString_sample
             and options = "(refresh_options False)\<lparr>configPath := []\<rparr>" and config = test_config
             and run = "run_at_2026 test_config [None, None, None, None]"
             and dir = december_dir]
        executeRefresh_metadata_ordered
          [where parse = Date_parse_sample and toISO = toISOString_sample
             and options = "refresh_options False" and config = huge_config
             and run = "run_at_2026 huge_config [Some (reddit_only ''a'' boundary_item)]"
             and dir = december_dir]
  by (simp add: Let_def executeRefresh_def refresh_options_def run_at_2026_def test_config_def
        empty_dir_def december_dir_def reddit_only_def boundary_item_def hasData_def
        isCacheFresh_def stored_metadata_def readJsonFileOrDefault_def js_gt_def js_sub_def
        Date_parse_sample_def toISOString_sample_def calculateNextUpdate_def
        new_Date_def js_add_def huge_config_def getIntervalDays_def buildBackoffMetadata_def writeBackoffMetadata_def
        writeCacheFiles_def hasExistingCache_def spec_metadata_ordered_def MAX_CACHE_AGE_DAYS_def
        BACKOFF_HOURS_def)

end
